theory Spec2Isabelle
  imports Complex_Main "HOL-Library.List_Lexorder" "HOL-Library.Char_ord"
begin

section \<open>Domain types (data/types)\<close>

text \<open>
  The TypeScript interfaces \<open>Borehole\<close> and \<open>Project\<close> as records. Identifiers and ISO
  timestamps are strings, as in the source. A JavaScript \<open>number\<close> is only carried around
  by the store, never computed on, and is modelled as a real. An optional field
  \<open>f?: T\<close> is \<open>T option\<close> (\<open>None\<close> is \<open>undefined\<close>); a field \<open>f?: T | null\<close> has the three
  states of \<open>jsval\<close>. Field names carry a prefix because the two interfaces share names.
\<close>

datatype coordinateSystem = WGS84

datatype boreholeStatus = Planned | Drilling | Completed | Abandoned

datatype projectStatus = Active | Archived

datatype 'a jsval = Undefined | Null | Val 'a

record borehole =
  b_id :: string
  b_code :: string
  b_name :: "string option"
  b_latitude :: real
  b_longitude :: real
  b_groundLevel :: "real jsval"
  b_totalDepth :: "real jsval"
  b_status :: boreholeStatus
  b_notes :: "string option"
  b_createdAt :: string
  b_updatedAt :: string

record project =
  p_id :: string
  p_name :: string
  p_client :: "string option"
  p_locationDescription :: "string option"
  p_coordinateSystem :: coordinateSystem
  p_boreholes :: "borehole list"
  p_createdAt :: string
  p_updatedAt :: string
  p_status :: projectStatus

section \<open>Borehole code generation (data/storage, generateBoreholeCode)\<close>

text \<open>
  \<open>String(num)\<close> for a positive integer is its decimal numeral; \<open>padStart(2, '0')\<close>
  puts zeros in front of a string shorter than two characters and leaves a longer one
  alone. The counter \<open>num\<close> is a natural number: the source's double counts exactly up
  to \<open>2^53\<close>, far beyond any borehole sequence that fits the storage medium.
\<close>

definition digit :: "nat \<Rightarrow> char" where
  "digit d = char_of (48 + d)"

fun String_nat :: "nat \<Rightarrow> string" where
  "String_nat n = (if n < 10 then [digit n] else String_nat (n div 10) @ [digit (n mod 10)])"

declare String_nat.simps [simp del]

definition padStart :: "nat \<Rightarrow> char \<Rightarrow> string \<Rightarrow> string" where
  "padStart targetLength c s = replicate (targetLength - length s) c @ s"

definition bhCode :: "nat \<Rightarrow> string" where
  "bhCode num = ''BH'' @ padStart 2 (CHR ''0'') (String_nat num)"

subsection \<open>The codes of distinct numbers are distinct\<close>

text \<open>Reading a decimal numeral back; used only to show that \<open>bhCode\<close> is injective.\<close>

definition digit_val :: "char \<Rightarrow> nat" where
  "digit_val c = of_char c - 48"

definition read_nat :: "string \<Rightarrow> nat" where
  "read_nat s = foldl (\<lambda>a c. 10 * a + digit_val c) 0 s"

lemma digit_val_digit: "d < 10 \<Longrightarrow> digit_val (digit d) = d"
  by (simp add: digit_val_def digit_def)

lemma read_nat_snoc: "read_nat (s @ [c]) = 10 * read_nat s + digit_val c"
  by (simp add: read_nat_def)

lemma read_nat_String_nat: "read_nat (String_nat n) = n"
proof (induction n rule: String_nat.induct)
  case (1 n)
  show ?case
  proof (cases "n < 10")
    case True
    then show ?thesis
      by (simp add: String_nat.simps [of n] read_nat_def digit_val_digit)
  next
    case False
    with 1 have "read_nat (String_nat (n div 10)) = n div 10" by simp
    with False show ?thesis
      by (simp add: String_nat.simps [of n] read_nat_snoc digit_val_digit)
  qed
qed

lemma read_nat_zeros: "read_nat (replicate k (CHR ''0'') @ s) = read_nat s"
proof (induction k)
  case 0
  show ?case by simp
next
  case (Suc k)
  have "foldl (\<lambda>a c. 10 * a + digit_val c) 0 (CHR ''0'' # replicate k (CHR ''0'') @ s)
      = foldl (\<lambda>a c. 10 * a + digit_val c) 0 (replicate k (CHR ''0'') @ s)"
    by (simp add: digit_val_def)
  with Suc show ?case by (simp add: read_nat_def)
qed

lemma read_nat_bhCode: "read_nat (drop 2 (bhCode n)) = n"
  by (simp add: bhCode_def padStart_def read_nat_zeros read_nat_String_nat)

lemma bhCode_inj: "bhCode m = bhCode n \<Longrightarrow> m = n"
  by (metis read_nat_bhCode)

lemma inj_bhCode: "inj bhCode"
  by (rule injI) (rule bhCode_inj)

lemma finite_used: "finite {m. bhCode m \<in> set cs}"
proof -
  have "finite (bhCode -` set cs)"
    by (rule finite_vimageI [OF _ inj_bhCode]) simp
  then show ?thesis by (simp add: vimage_def)
qed

lemma scan_measure_decreases:
  assumes used: "bhCode num \<in> set existingCodes"
  shows "card {m. Suc num \<le> m \<and> bhCode m \<in> set existingCodes}
       < card {m. num \<le> m \<and> bhCode m \<in> set existingCodes}"
proof -
  let ?A = "{m. Suc num \<le> m \<and> bhCode m \<in> set existingCodes}"
  let ?B = "{m. num \<le> m \<and> bhCode m \<in> set existingCodes}"
  have fin: "finite ?B"
    by (rule finite_subset [OF _ finite_used [of existingCodes]]) auto
  have "num \<in> ?B" and "num \<notin> ?A" and "?A \<subseteq> ?B"
    using used by auto
  then have "?A \<subset> ?B"
    by blast
  then show ?thesis
    by (rule psubset_card_mono [OF fin])
qed

text \<open>
  The \<open>while\<close> loop of generateBoreholeCode: \<open>num\<close> is incremented as long as the code
  it renders to is among the existing codes. The loop returns the final \<open>num\<close>; the
  candidates it has tried are exactly \<open>1, \<dots>, num\<close>.
\<close>

function scanCodes :: "string list \<Rightarrow> nat \<Rightarrow> nat" where
  "scanCodes existingCodes num =
     (if bhCode num \<in> set existingCodes then scanCodes existingCodes (Suc num) else num)"
  by pat_completeness auto
termination
  by (relation "measure (\<lambda>(cs, n). card {m. n \<le> m \<and> bhCode m \<in> set cs})")
    (simp_all add: scan_measure_decreases)

declare scanCodes.simps [simp del]

text \<open>
  The same loop, recording every value of \<open>num\<close> at which the loop condition is
  evaluated: the candidate numbers the scan tries, in order.
\<close>

function scanTried :: "string list \<Rightarrow> nat \<Rightarrow> nat list" where
  "scanTried existingCodes num =
     (if bhCode num \<in> set existingCodes then num # scanTried existingCodes (Suc num)
      else [num])"
  by pat_completeness auto
termination
  by (relation "measure (\<lambda>(cs, n). card {m. n \<le> m \<and> bhCode m \<in> set cs})")
    (simp_all add: scan_measure_decreases)

declare scanTried.simps [simp del]

definition generateBoreholeCode :: "project \<Rightarrow> string" where
  "generateBoreholeCode p =
     (let existingCodes = map b_code (p_boreholes p)
      in bhCode (scanCodes existingCodes 1))"

section \<open>The persisted medium (localStorage under the key boremap_projects)\<close>

text \<open>
  The store keeps one string under a fixed key. The string is represented by what
  \<open>JSON.parse\<close> makes of it: \<open>EmptyText\<close> is the empty string, \<open>Malformed\<close> any other
  string that \<open>JSON.parse\<close> rejects, and \<open>Encoded ps\<close> the text that \<open>JSON.stringify\<close>
  writes for the project sequence \<open>ps\<close> and that \<open>JSON.parse\<close> reads back as \<open>ps\<close>.
  (A string that parses to something other than a sequence of projects is cast unchecked
  by the source; what getProjects makes of such a string is modelled apart, in the
  section on reading any stored text, and the operations of the store are modelled on
  the media described here.) When the medium is not \<open>accessible\<close> (storage
  blocked by the browser) both \<open>getItem\<close> and \<open>setItem\<close> raise; when it is \<open>full\<close> (quota
  exceeded) \<open>setItem\<close> raises. \<open>writes\<close> counts the completed \<open>setItem\<close> calls and
  \<open>console\<close> collects the \<open>console.error\<close> lines.
\<close>

datatype blob = EmptyText | Malformed | Encoded "project list"

datatype error = SecurityError | QuotaExceededError | SyntaxError | Error string

datatype logEntry = ConsoleError string error

record medium =
  accessible :: bool
  full :: bool
  item :: "blob option"
  writes :: nat
  console :: "logEntry list"

datatype 'a outcome = Returns 'a | Throws error

definition getItem :: "medium \<Rightarrow> error + blob option" where
  "getItem m = (if accessible m then Inr (item m) else Inl SecurityError)"

definition setItem :: "blob \<Rightarrow> medium \<Rightarrow> error + medium" where
  "setItem v m =
     (if \<not> accessible m then Inl SecurityError
      else if full m then Inl QuotaExceededError
      else Inr (m\<lparr>item := Some v, writes := Suc (writes m)\<rparr>))"

definition JSON_parse :: "blob \<Rightarrow> error + project list" where
  "JSON_parse data = (case data of Encoded ps \<Rightarrow> Inr ps | _ \<Rightarrow> Inl SyntaxError)"

definition JSON_stringify :: "project list \<Rightarrow> blob" where
  "JSON_stringify ps = Encoded ps"

definition console_error :: "string \<Rightarrow> error \<Rightarrow> medium \<Rightarrow> medium" where
  "console_error msg e m = m\<lparr>console := console m @ [ConsoleError msg e]\<rparr>"

section \<open>The persistence store (data/storage)\<close>

text \<open>The body of the \<open>try\<close> block of getProjects; \<open>!data\<close> holds for \<open>null\<close> and for the empty string.\<close>

definition getProjects_try :: "medium \<Rightarrow> error + project list" where
  "getProjects_try m =
     (case getItem m of
        Inl e \<Rightarrow> Inl e
      | Inr None \<Rightarrow> Inr []
      | Inr (Some data) \<Rightarrow> if data = EmptyText then Inr [] else JSON_parse data)"

definition getProjects :: "medium \<Rightarrow> project list \<times> medium" where
  "getProjects m =
     (case getProjects_try m of
        Inr ps \<Rightarrow> (ps, m)
      | Inl e \<Rightarrow> ([], console_error ''Failed to load projects:'' e m))"

definition getProject :: "string \<Rightarrow> medium \<Rightarrow> project option \<times> medium" where
  "getProject projectId m =
     (case getProjects m of
        (projects, m') \<Rightarrow> (find (\<lambda>p. p_id p = projectId) projects, m'))"

definition saveProjects :: "project list \<Rightarrow> medium \<Rightarrow> unit outcome \<times> medium" where
  "saveProjects projects m =
     (case setItem (JSON_stringify projects) m of
        Inr m' \<Rightarrow> (Returns (), m')
      | Inl e \<Rightarrow> (Throws (Error ''Failed to save data''),
                  console_error ''Failed to save projects:'' e m))"

text \<open>\<open>x || d\<close> on an optional string: \<open>undefined\<close> and the empty string give \<open>d\<close>.\<close>

definition or_string :: "string option \<Rightarrow> string \<Rightarrow> string" where
  "or_string x d = (case x of None \<Rightarrow> d | Some s \<Rightarrow> if s = [] then d else s)"

text \<open>\<open>x || d\<close> on an optional value that is never falsy when present.\<close>

definition or_value :: "'a option \<Rightarrow> 'a \<Rightarrow> 'a" where
  "or_value x d = (case x of None \<Rightarrow> d | Some v \<Rightarrow> v)"

text \<open>\<open>x ?? null\<close>: \<open>undefined\<close> and \<open>null\<close> give \<open>null\<close>.\<close>

definition or_null :: "'a jsval \<Rightarrow> 'a jsval" where
  "or_null x = (case x of Undefined \<Rightarrow> Null | Null \<Rightarrow> Null | Val v \<Rightarrow> Val v)"

text \<open>\<open>Array.prototype.findIndex\<close>, with \<open>None\<close> for the source's \<open>-1\<close>.\<close>

fun findIndex :: "('a \<Rightarrow> bool) \<Rightarrow> 'a list \<Rightarrow> nat option" where
  "findIndex P [] = None"
| "findIndex P (x # xs) = (if P x then Some 0 else map_option Suc (findIndex P xs))"

subsection \<open>createProject\<close>



subsection \<open>Object spread and in-place mutation\<close>

text \<open>
  An updates object has one optional entry per key: \<open>None\<close> when the object has no such
  own property, and otherwise a value of the type the interface gives the key. In \<open>{...record, ...updates}\<close> every own property of \<open>updates\<close> replaces the
  record's. The static types of the store's update parameters leave out \<open>id\<close>,
  \<open>createdAt\<close> (and \<open>boreholes\<close>), but types are erased at run time, the spread copies
  whatever the object holds, and the facade passes a \<open>Partial<Project>\<close> or
  \<open>Partial<Borehole>\<close> through unchanged; so those keys are entries of the model too.
\<close>

definition spread :: "'a \<Rightarrow> 'a option \<Rightarrow> 'a" where
  "spread old upd = (case upd of None \<Rightarrow> old | Some v \<Rightarrow> v)"

record projectUpdates =
  u_id :: "string option"
  u_name :: "string option"
  u_client :: "string option option"
  u_locationDescription :: "string option option"
  u_coordinateSystem :: "coordinateSystem option"
  u_boreholes :: "borehole list option"
  u_createdAt :: "string option"
  u_updatedAt :: "string option"
  u_status :: "projectStatus option"

definition spreadProject :: "project \<Rightarrow> projectUpdates \<Rightarrow> project" where
  "spreadProject p u =
     \<lparr>p_id = spread (p_id p) (u_id u),
      p_name = spread (p_name p) (u_name u),
      p_client = spread (p_client p) (u_client u),
      p_locationDescription = spread (p_locationDescription p) (u_locationDescription u),
      p_coordinateSystem = spread (p_coordinateSystem p) (u_coordinateSystem u),
      p_boreholes = spread (p_boreholes p) (u_boreholes u),
      p_createdAt = spread (p_createdAt p) (u_createdAt u),
      p_updatedAt = spread (p_updatedAt p) (u_updatedAt u),
      p_status = spread (p_status p) (u_status u)\<rparr>"

record boreholeUpdates =
  ub_id :: "string option"
  ub_code :: "string option"
  ub_name :: "string option option"
  ub_latitude :: "real option"
  ub_longitude :: "real option"
  ub_groundLevel :: "real jsval option"
  ub_totalDepth :: "real jsval option"
  ub_status :: "boreholeStatus option"
  ub_notes :: "string option option"
  ub_createdAt :: "string option"
  ub_updatedAt :: "string option"

definition spreadBorehole :: "borehole \<Rightarrow> boreholeUpdates \<Rightarrow> borehole" where
  "spreadBorehole b u =
     \<lparr>b_id = spread (b_id b) (ub_id u),
      b_code = spread (b_code b) (ub_code u),
      b_name = spread (b_name b) (ub_name u),
      b_latitude = spread (b_latitude b) (ub_latitude u),
      b_longitude = spread (b_longitude b) (ub_longitude u),
      b_groundLevel = spread (b_groundLevel b) (ub_groundLevel u),
      b_totalDepth = spread (b_totalDepth b) (ub_totalDepth u),
      b_status = spread (b_status b) (ub_status u),
      b_notes = spread (b_notes b) (ub_notes u),
      b_createdAt = spread (b_createdAt b) (ub_createdAt u),
      b_updatedAt = spread (b_updatedAt b) (ub_updatedAt u)\<rparr>"

text \<open>
  \<open>projects.find(...)\<close> returns the first matching object of the freshly parsed array,
  and the source then mutates that object in place: the array that is saved differs from
  the one that was read at the first match only.
\<close>

fun mutateFirst :: "('a \<Rightarrow> bool) \<Rightarrow> ('a \<Rightarrow> 'a) \<Rightarrow> 'a list \<Rightarrow> 'a list" where
  "mutateFirst P f [] = []"
| "mutateFirst P f (x # xs) = (if P x then f x # xs else x # mutateFirst P f xs)"

subsection \<open>updateProject\<close>

definition updateProject ::
  "string \<Rightarrow> projectUpdates \<Rightarrow> string \<Rightarrow> medium \<Rightarrow> project option outcome \<times> medium" where
  "updateProject projectId updates now m =
     (case getProjects m of
        (projects, m1) \<Rightarrow>
          (case findIndex (\<lambda>p. p_id p = projectId) projects of
             None \<Rightarrow> (Returns None, m1)
           | Some index \<Rightarrow>
               (let projects' =
                      projects[index := (spreadProject (projects ! index) updates)
                                          \<lparr>p_updatedAt := now\<rparr>]
                in case saveProjects projects' m1 of
                     (Throws e, m2) \<Rightarrow> (Throws e, m2)
                   | (Returns u, m2) \<Rightarrow> (Returns (Some (projects' ! index)), m2))))"

subsection \<open>addBorehole\<close>

record boreholeData =
  a_code :: "string option"
  a_name :: "string option"
  a_latitude :: real
  a_longitude :: real
  a_groundLevel :: "real jsval"
  a_totalDepth :: "real jsval"
  a_status :: "boreholeStatus option"
  a_notes :: "string option"

definition addBorehole ::
  "string \<Rightarrow> boreholeData \<Rightarrow> string \<Rightarrow> string \<Rightarrow> medium \<Rightarrow> borehole option outcome \<times> medium" where
  "addBorehole projectId data uuid now m =
     (case getProjects m of
        (projects, m1) \<Rightarrow>
          (case find (\<lambda>p. p_id p = projectId) projects of
             None \<Rightarrow> (Returns None, m1)
           | Some project \<Rightarrow>
               (let borehole = \<lparr>b_id = uuid,
                                b_code = or_string (a_code data) (generateBoreholeCode project),
                                b_name = a_name data,
                                b_latitude = a_latitude data,
                                b_longitude = a_longitude data,
                                b_groundLevel = or_null (a_groundLevel data),
                                b_totalDepth = or_null (a_totalDepth data),
                                b_status = or_value (a_status data) Planned,
                                b_notes = Some (or_string (a_notes data) ''''),
                                b_createdAt = now,
                                b_updatedAt = now\<rparr>;
                    projects' = mutateFirst (\<lambda>p. p_id p = projectId)
                      (\<lambda>p. p\<lparr>p_boreholes := p_boreholes p @ [borehole], p_updatedAt := now\<rparr>)
                      projects
                in case saveProjects projects' m1 of
                     (Throws e, m2) \<Rightarrow> (Throws e, m2)
                   | (Returns u, m2) \<Rightarrow> (Returns (Some borehole), m2))))"

subsection \<open>updateBorehole\<close>

text \<open>The source reads the clock twice: for the borehole's stamp, then for the project's.\<close>

definition updateBorehole ::
  "string \<Rightarrow> string \<Rightarrow> boreholeUpdates \<Rightarrow> string \<Rightarrow> string \<Rightarrow> medium
     \<Rightarrow> borehole option outcome \<times> medium" where
  "updateBorehole projectId boreholeId updates now1 now2 m =
     (case getProjects m of
        (projects, m1) \<Rightarrow>
          (case find (\<lambda>p. p_id p = projectId) projects of
             None \<Rightarrow> (Returns None, m1)
           | Some project \<Rightarrow>
               (case findIndex (\<lambda>b. b_id b = boreholeId) (p_boreholes project) of
                  None \<Rightarrow> (Returns None, m1)
                | Some boreholeIndex \<Rightarrow>
                    (let boreholes' =
                           (p_boreholes project)
                             [boreholeIndex :=
                                (spreadBorehole (p_boreholes project ! boreholeIndex) updates)
                                  \<lparr>b_updatedAt := now1\<rparr>];
                         projects' = mutateFirst (\<lambda>p. p_id p = projectId)
                           (\<lambda>p. p\<lparr>p_boreholes := boreholes', p_updatedAt := now2\<rparr>)
                           projects
                     in case saveProjects projects' m1 of
                          (Throws e, m2) \<Rightarrow> (Throws e, m2)
                        | (Returns u, m2) \<Rightarrow>
                            (Returns (Some (boreholes' ! boreholeIndex)), m2)))))"

subsection \<open>deleteBorehole\<close>

definition deleteBorehole ::
  "string \<Rightarrow> string \<Rightarrow> string \<Rightarrow> medium \<Rightarrow> bool outcome \<times> medium" where
  "deleteBorehole projectId boreholeId now m =
     (case getProjects m of
        (projects, m1) \<Rightarrow>
          (case find (\<lambda>p. p_id p = projectId) projects of
             None \<Rightarrow> (Returns False, m1)
           | Some project \<Rightarrow>
               (let initialLength = length (p_boreholes project);
                    boreholes' = filter (\<lambda>b. b_id b \<noteq> boreholeId) (p_boreholes project)
                in if length boreholes' = initialLength then (Returns False, m1)
                   else
                     (let projects' = mutateFirst (\<lambda>p. p_id p = projectId)
                            (\<lambda>p. p\<lparr>p_boreholes := boreholes', p_updatedAt := now\<rparr>)
                            projects
                      in case saveProjects projects' m1 of
                           (Throws e, m2) \<Rightarrow> (Throws e, m2)
                         | (Returns u, m2) \<Rightarrow> (Returns True, m2)))))"

section \<open>The application state facade (hooks/useProjects)\<close>

text \<open>
  The React state of the provider. A callback reads \<open>currentProject\<close> and
  \<open>selectedBorehole\<close> as they were when it was created, which is the state the call
  starts from; the state setters it calls take effect in the order they are called.
\<close>

record facade =
  projects_state :: "project list"
  currentProject :: "project option"
  selectedBorehole :: "borehole option"
  isLoading :: bool
  error_state :: "string option"

definition initialFacade :: facade where
  "initialFacade = \<lparr>projects_state = [], currentProject = None, selectedBorehole = None,
                     isLoading = False, error_state = None\<rparr>"

text \<open>
  loadProject: \<open>storage.getProject\<close> cannot raise (getProjects catches everything), so
  the \<open>catch\<close> branch is never taken; \<open>finally\<close> leaves \<open>isLoading\<close> false.
\<close>

definition loadProject :: "string \<Rightarrow> facade \<times> medium \<Rightarrow> facade \<times> medium" where
  "loadProject projectId s =
     (case s of
        (f, m) \<Rightarrow>
          (case getProject projectId m of
             (project, m') \<Rightarrow>
               (f\<lparr>isLoading := False, currentProject := project,
                   selectedBorehole := None, error_state := None\<rparr>, m')))"

definition selectBorehole :: "borehole option \<Rightarrow> facade \<times> medium \<Rightarrow> facade \<times> medium" where
  "selectBorehole borehole s = (case s of (f, m) \<Rightarrow> (f\<lparr>selectedBorehole := borehole\<rparr>, m))"

definition facade_updateBorehole ::
  "string \<Rightarrow> boreholeUpdates \<Rightarrow> string \<Rightarrow> string \<Rightarrow> facade \<times> medium \<Rightarrow> facade \<times> medium" where
  "facade_updateBorehole boreholeId updates now1 now2 s =
     (case s of
        (f, m) \<Rightarrow>
          (case currentProject f of
             None \<Rightarrow> (f, m)
           | Some cp \<Rightarrow>
               (case updateBorehole (p_id cp) boreholeId updates now1 now2 m of
                  (Throws e, m1) \<Rightarrow>
                    (f\<lparr>error_state := Some ''Failed to update borehole''\<rparr>,
                     console_error [] e m1)
                | (Returns updated, m1) \<Rightarrow>
                    (case loadProject (p_id cp) (f, m1) of
                       (f1, m2) \<Rightarrow>
                         if map_option b_id (selectedBorehole f) = Some boreholeId
                            \<and> updated \<noteq> None
                         then (f1\<lparr>selectedBorehole := updated\<rparr>, m2)
                         else (f1, m2)))))"

definition facade_deleteBorehole ::
  "string \<Rightarrow> string \<Rightarrow> facade \<times> medium \<Rightarrow> facade \<times> medium" where
  "facade_deleteBorehole boreholeId now s =
     (case s of
        (f, m) \<Rightarrow>
          (case currentProject f of
             None \<Rightarrow> (f, m)
           | Some cp \<Rightarrow>
               (case deleteBorehole (p_id cp) boreholeId now m of
                  (Throws e, m1) \<Rightarrow>
                    (f\<lparr>error_state := Some ''Failed to delete borehole''\<rparr>,
                     console_error [] e m1)
                | (Returns removed, m1) \<Rightarrow>
                    (case loadProject (p_id cp) (f, m1) of
                       (f1, m2) \<Rightarrow>
                         if map_option b_id (selectedBorehole f) = Some boreholeId
                         then (f1\<lparr>selectedBorehole := None\<rparr>, m2)
                         else (f1, m2)))))"

section \<open>Reading any stored text (data/storage, getProjects)\<close>

text \<open>
  The store above keeps to the texts its own writes leave under the key, and to none, the
  empty and the unparsable one. The browser's storage can hold any string, and
  getProjects returns what \<open>JSON.parse\<close> makes of it under the cast \<open>as Project[]\<close>,
  which checks nothing. For the reading path the stored string is therefore modelled a
  second time, as any string: \<open>NoChars\<close> is the empty string, \<open>NotJson\<close> a string that
  \<open>JSON.parse\<close> rejects, and \<open>JsonText v\<close> a string of valid JSON, where \<open>v\<close> is the
  value \<open>JSON.parse\<close> returns: \<open>ProjectArray ps\<close> when the text encodes the project
  sequence \<open>ps\<close>, and \<open>OtherJson j\<close> for the JSON value \<open>j\<close> of any other shape
  (\<open>null\<close>, a number, a string, an object, an array of something else).
\<close>

datatype json =
  JNull | JBool bool | JNumber real | JString string
| JArray "json list" | JObject "(string \<times> json) list"

datatype parsed = ProjectArray "project list" | OtherJson json

datatype anyText = NoChars | NotJson | JsonText parsed

record browserStorage =
  bs_accessible :: bool
  bs_item :: "anyText option"
  bs_console :: "logEntry list"

definition getItem_any :: "browserStorage \<Rightarrow> error + anyText option" where
  "getItem_any s = (if bs_accessible s then Inr (bs_item s) else Inl SecurityError)"

definition JSON_parse_any :: "anyText \<Rightarrow> error + parsed" where
  "JSON_parse_any data = (case data of JsonText v \<Rightarrow> Inr v | _ \<Rightarrow> Inl SyntaxError)"

text \<open>The \<open>try\<close> block of getProjects and the function itself, on any stored text.\<close>

definition getProjects_any_try :: "browserStorage \<Rightarrow> error + parsed" where
  "getProjects_any_try s =
     (case getItem_any s of
        Inl e \<Rightarrow> Inl e
      | Inr None \<Rightarrow> Inr (ProjectArray [])
      | Inr (Some data) \<Rightarrow>
          if data = NoChars then Inr (ProjectArray []) else JSON_parse_any data)"

definition getProjects_any :: "browserStorage \<Rightarrow> parsed \<times> browserStorage" where
  "getProjects_any s =
     (case getProjects_any_try s of
        Inr v \<Rightarrow> (v, s)
      | Inl e \<Rightarrow>
          (ProjectArray [],
           s\<lparr>bs_console := bs_console s @ [ConsoleError ''Failed to load projects:'' e]\<rparr>))"

text \<open>A medium of the store, seen as browser storage.\<close>

definition textOf :: "blob \<Rightarrow> anyText" where
  "textOf b =
     (case b of EmptyText \<Rightarrow> NoChars | Malformed \<Rightarrow> NotJson
      | Encoded ps \<Rightarrow> JsonText (ProjectArray ps))"

definition storageOf :: "medium \<Rightarrow> browserStorage" where
  "storageOf m =
     \<lparr>bs_accessible = accessible m, bs_item = map_option textOf (item m),
      bs_console = console m\<rparr>"

section \<open>Example data\<close>

text \<open>
  A borehole and a project in the shape of the sample data of initializeSampleData, and a
  medium that holds a given project sequence; the concrete instances below are built
  from them.
\<close>

definition exampleBorehole :: "string \<Rightarrow> string \<Rightarrow> borehole" where
  "exampleBorehole i c =
     \<lparr>b_id = i, b_code = c, b_name = Some ''North Corner'',
      b_latitude = 40.7128, b_longitude = -74.006,
      b_groundLevel = Val 12.5, b_totalDepth = Val 15, b_status = Drilling,
      b_notes = Some ''Sandy soil with groundwater at 8m'',
      b_createdAt = ''2024-05-01T09:00:00.000Z'', b_updatedAt = ''2024-05-01T09:00:00.000Z''\<rparr>"

definition exampleProject :: "string \<Rightarrow> borehole list \<Rightarrow> project" where
  "exampleProject i bs =
     \<lparr>p_id = i, p_name = ''Auckland Site Investigation'', p_client = Some ''Acme Corp'',
      p_locationDescription = Some ''Central Auckland, New Zealand'',
      p_coordinateSystem = WGS84, p_boreholes = bs,
      p_createdAt = ''2024-04-29T09:00:00.000Z'', p_updatedAt = ''2024-04-29T09:00:00.000Z'',
      p_status = Active\<rparr>"

definition exampleMedium :: "project list \<Rightarrow> medium" where
  "exampleMedium ps =
     \<lparr>accessible = True, full = False, item = Some (JSON_stringify ps), writes = 0,
      console = []\<rparr>"

text \<open>The empty updates object \<open>{}\<close>, for projects and for boreholes.\<close>

definition emptyProjectUpdates :: projectUpdates where
  "emptyProjectUpdates =
     \<lparr>u_id = None, u_name = None, u_client = None, u_locationDescription = None,
      u_coordinateSystem = None, u_boreholes = None, u_createdAt = None, u_updatedAt = None,
      u_status = None\<rparr>"

definition emptyBoreholeUpdates :: boreholeUpdates where
  "emptyBoreholeUpdates =
     \<lparr>ub_id = None, ub_code = None, ub_name = None, ub_latitude = None, ub_longitude = None,
      ub_groundLevel = None, ub_totalDepth = None, ub_status = None, ub_notes = None,
      ub_createdAt = None, ub_updatedAt = None\<rparr>"


section \<open>Properties of the code generator\<close>

lemma scan_unused: "bhCode (scanCodes cs num) \<notin> set cs"
proof (induction cs num rule: scanCodes.induct)
  case (1 cs num)
  then show ?case by (subst scanCodes.simps) auto
qed

lemma scan_used_below: "num \<le> m \<Longrightarrow> m < scanCodes cs num \<Longrightarrow> bhCode m \<in> set cs"
proof (induction cs num rule: scanCodes.induct)
  case (1 cs num)
  show ?case
  proof (cases "bhCode num \<in> set cs")
    case True
    show ?thesis
    proof (cases "m = num")
      case True
      with \<open>bhCode num \<in> set cs\<close> show ?thesis by simp
    next
      case False
      with "1.prems" have "Suc num \<le> m" by simp
      moreover from "1.prems" True have "m < scanCodes cs (Suc num)"
        by (simp add: scanCodes.simps [of cs num])
      ultimately show ?thesis using "1.IH" True by simp
    qed
  next
    case False
    with "1.prems" show ?thesis by (simp add: scanCodes.simps [of cs num])
  qed
qed

lemma scan_ge: "num \<le> scanCodes cs num"
proof (induction cs num rule: scanCodes.induct)
  case (1 cs num)
  then show ?case by (subst scanCodes.simps) auto
qed

lemma scan_bound: "scanCodes cs num \<le> num + length cs"
proof -
  let ?r = "scanCodes cs num"
  have "bhCode ` {num..<?r} \<subseteq> set cs"
    using scan_used_below by auto
  then have "card (bhCode ` {num..<?r}) \<le> card (set cs)"
    by (rule card_mono [OF finite_set])
  moreover have "card (bhCode ` {num..<?r}) = ?r - num"
    by (simp add: card_image inj_on_def bhCode_inj)
  moreover have "card (set cs) \<le> length cs"
    by (rule card_length)
  ultimately show ?thesis by simp
qed

lemma scan_unique:
  assumes free: "bhCode k \<notin> set cs" and below: "\<And>m. num \<le> m \<Longrightarrow> m < k \<Longrightarrow> bhCode m \<in> set cs"
    and start: "num \<le> k"
  shows "scanCodes cs num = k"
proof (rule ccontr)
  assume neq: "scanCodes cs num \<noteq> k"
  show False
  proof (cases "scanCodes cs num < k")
    case True
    with below [OF scan_ge] have "bhCode (scanCodes cs num) \<in> set cs" .
    with scan_unused show False by blast
  next
    case False
    with neq have "k < scanCodes cs num" by simp
    with start have "bhCode k \<in> set cs" by (rule scan_used_below)
    with free show False by contradiction
  qed
qed

lemma scanTried_eq: "scanTried cs num = [num..<Suc (scanCodes cs num)]"
proof (induction cs num rule: scanCodes.induct)
  case (1 cs num)
  show ?case
  proof (cases "bhCode num \<in> set cs")
    case True
    moreover have "Suc num \<le> scanCodes cs (Suc num)" by (rule scan_ge)
    ultimately show ?thesis
      using "1.IH" by (simp add: scanCodes.simps [of cs num] scanTried.simps [of cs num] upt_conv_Cons)
  next
    case False
    then show ?thesis by (simp add: scanCodes.simps [of cs num] scanTried.simps [of cs num])
  qed
qed

lemma String_nat_small: "n < 10 \<Longrightarrow> String_nat n = [digit n]"
  by (simp add: String_nat.simps [of n])

lemma String_nat_long: "10 \<le> n \<Longrightarrow> 2 \<le> length (String_nat n)"
proof (induction n rule: String_nat.induct)
  case (1 n)
  have "1 \<le> length (String_nat (n div 10))"
    by (subst String_nat.simps) simp
  with 1 show ?case by (simp add: String_nat.simps [of n])
qed

lemma bhCode_small: "n < 10 \<Longrightarrow> bhCode n = ''BH0'' @ String_nat n"
  by (simp add: bhCode_def padStart_def String_nat_small)

lemma bhCode_large: "10 \<le> n \<Longrightarrow> bhCode n = ''BH'' @ String_nat n"
  using String_nat_long [of n] by (simp add: bhCode_def padStart_def)

text \<open>
  Claim C1. For every project, generateBoreholeCode returns the code \<open>BH{NN}\<close> of the
  lowest number, counting from 1, whose code is not among the codes of the project's
  boreholes. Numbers below ten are rendered with two digits, larger ones with all their
  digits. It returns \<open>BH01\<close> for an empty borehole sequence and \<open>BH03\<close> when the codes
  are BH01, BH02 and BH04; when the codes are exactly those of the numbers below \<open>k\<close> it
  returns the code of \<open>k\<close>, for every \<open>k\<close>, so after BH99 comes BH100.
\<close>

theorem generateBoreholeCode_lowest_unused:
  "(\<exists>n\<ge>1. generateBoreholeCode p = bhCode n
        \<and> bhCode n \<notin> b_code ` set (p_boreholes p)
        \<and> (\<forall>m. 1 \<le> m \<and> m < n \<longrightarrow> bhCode m \<in> b_code ` set (p_boreholes p)))
   \<and> (\<forall>n. bhCode n = (if n < 10 then ''BH0'' @ String_nat n else ''BH'' @ String_nat n))
   \<and> (p_boreholes p = [] \<longrightarrow> generateBoreholeCode p = ''BH01'')
   \<and> (b_code ` set (p_boreholes p) = {''BH01'', ''BH02'', ''BH04''}
        \<longrightarrow> generateBoreholeCode p = ''BH03'')
   \<and> (\<forall>k\<ge>1. b_code ` set (p_boreholes p) = bhCode ` {1..<k}
        \<longrightarrow> generateBoreholeCode p = bhCode k)
   \<and> bhCode 99 = ''BH99'' \<and> bhCode 100 = ''BH100''"
proof -
  let ?cs = "map b_code (p_boreholes p)"
  let ?r = "scanCodes ?cs 1"
  have codes: "set ?cs = b_code ` set (p_boreholes p)" by simp
  have gen: "generateBoreholeCode p = bhCode ?r"
    by (simp add: generateBoreholeCode_def)
  have lowest: "\<exists>n\<ge>1. generateBoreholeCode p = bhCode n
        \<and> bhCode n \<notin> b_code ` set (p_boreholes p)
        \<and> (\<forall>m. 1 \<le> m \<and> m < n \<longrightarrow> bhCode m \<in> b_code ` set (p_boreholes p))"
  proof (intro exI conjI allI impI)
    show "1 \<le> ?r" by (rule scan_ge)
    show "generateBoreholeCode p = bhCode ?r" by (rule gen)
    show "bhCode ?r \<notin> b_code ` set (p_boreholes p)"
      using scan_unused [of ?cs 1] by simp
  next
    fix m assume "1 \<le> m \<and> m < ?r"
    then have "1 \<le> m" and "m < ?r" by simp_all
    then have "bhCode m \<in> set ?cs" by (rule scan_used_below)
    then show "bhCode m \<in> b_code ` set (p_boreholes p)" by simp
  qed
  have format: "\<forall>n. bhCode n = (if n < 10 then ''BH0'' @ String_nat n else ''BH'' @ String_nat n)"
    using bhCode_small bhCode_large by (simp add: not_less)
  have b1: "bhCode 1 = ''BH01''" by code_simp
  have b2: "bhCode 2 = ''BH02''" by code_simp
  have b3: "bhCode 3 = ''BH03''" by code_simp
  have empty: "p_boreholes p = [] \<longrightarrow> generateBoreholeCode p = ''BH01''"
  proof
    assume "p_boreholes p = []"
    then have "?r = 1" by (subst scanCodes.simps) simp
    with gen b1 show "generateBoreholeCode p = ''BH01''" by simp
  qed
  have gap: "b_code ` set (p_boreholes p) = {''BH01'', ''BH02'', ''BH04''}
        \<longrightarrow> generateBoreholeCode p = ''BH03''"
  proof
    assume S: "b_code ` set (p_boreholes p) = {''BH01'', ''BH02'', ''BH04''}"
    have "?r = 3"
    proof (rule scan_unique)
      show "bhCode 3 \<notin> set ?cs" unfolding codes S b3 by simp
      show "(1::nat) \<le> 3" by simp
    next
      fix m :: nat assume "1 \<le> m" and "m < 3"
      then have "m = 1 \<or> m = 2" by arith
      then show "bhCode m \<in> set ?cs" unfolding codes S using b1 b2 by auto
    qed
    with gen b3 show "generateBoreholeCode p = ''BH03''" by simp
  qed
  have dense: "\<forall>k\<ge>1. b_code ` set (p_boreholes p) = bhCode ` {1..<k}
        \<longrightarrow> generateBoreholeCode p = bhCode k"
  proof (intro allI impI)
    fix k :: nat assume k: "1 \<le> k" and S: "b_code ` set (p_boreholes p) = bhCode ` {1..<k}"
    have "?r = k"
    proof (rule scan_unique)
      show "bhCode k \<notin> set ?cs" unfolding codes S by (auto dest: bhCode_inj)
      show "1 \<le> k" by (rule k)
    next
      fix m :: nat assume "1 \<le> m" and "m < k"
      then show "bhCode m \<in> set ?cs" unfolding codes S by simp
    qed
    with gen show "generateBoreholeCode p = bhCode k" by simp
  qed
  have b99: "bhCode 99 = ''BH99''" by code_simp
  have b100: "bhCode 100 = ''BH100''" by code_simp
  from lowest format empty gap dense b99 b100 show ?thesis by blast
qed

text \<open>
  The claim at a project whose boreholes carry the codes BH01, BH02 and BH04, at one
  without boreholes, and at one whose codes are those of the numbers below 3.
\<close>

theorem generateBoreholeCode_lowest_unused_witness:
  "generateBoreholeCode
     (exampleProject ''p1'' [exampleBorehole ''a'' ''BH01'', exampleBorehole ''b'' ''BH02'',
                            exampleBorehole ''c'' ''BH04'']) = ''BH03''
   \<and> generateBoreholeCode (exampleProject ''p1'' []) = ''BH01''
   \<and> generateBoreholeCode
     (exampleProject ''p1'' [exampleBorehole ''a'' ''BH02'', exampleBorehole ''b'' ''BH01''])
       = bhCode 3"
proof -
  let ?p = "exampleProject ''p1'' [exampleBorehole ''a'' ''BH01'', exampleBorehole ''b'' ''BH02'',
                            exampleBorehole ''c'' ''BH04'']"
  let ?e = "exampleProject ''p1'' []"
  let ?d = "exampleProject ''p1'' [exampleBorehole ''a'' ''BH02'', exampleBorehole ''b'' ''BH01'']"
  have "b_code ` set (p_boreholes ?p) = {''BH01'', ''BH02'', ''BH04''}"
    by (simp add: exampleProject_def exampleBorehole_def)
  with generateBoreholeCode_lowest_unused [of ?p]
  have gap: "generateBoreholeCode ?p = ''BH03''" by blast
  have "p_boreholes ?e = []"
    by (simp add: exampleProject_def)
  with generateBoreholeCode_lowest_unused [of ?e]
  have empty: "generateBoreholeCode ?e = ''BH01''" by blast
  have b1: "bhCode 1 = ''BH01''" and b2: "bhCode 2 = ''BH02''" by code_simp+
  have "{1..<3::nat} = {1, 2}" by auto
  then have "bhCode ` {1..<3} = {bhCode 1, bhCode 2}"
    by (simp only: image_insert image_empty)
  then have "bhCode ` {1..<3} = {''BH01'', ''BH02''}"
    by (simp only: b1 b2)
  moreover have "b_code ` set (p_boreholes ?d) = {''BH01'', ''BH02''}"
    by (auto simp: exampleProject_def exampleBorehole_def)
  ultimately have "(1::nat) \<le> 3 \<and> b_code ` set (p_boreholes ?d) = bhCode ` {1..<3}"
    by simp
  with generateBoreholeCode_lowest_unused [of ?d]
  have dense: "generateBoreholeCode ?d = bhCode 3" by blast
  from gap empty dense show ?thesis by blast
qed

text \<open>
  Claim C9. generateBoreholeCode terminates (\<open>scanCodes\<close> and \<open>scanTried\<close> are total
  functions), and its loop tries at most (number of boreholes + 1) candidate numbers:
  the candidates tried are that many at most, the code returned is the code of the last
  of them, and that code is not among the project's borehole codes.
\<close>

theorem generateBoreholeCode_terminates:
  "generateBoreholeCode p = bhCode (last (scanTried (map b_code (p_boreholes p)) 1))
   \<and> length (scanTried (map b_code (p_boreholes p)) 1) \<le> length (p_boreholes p) + 1
   \<and> bhCode (last (scanTried (map b_code (p_boreholes p)) 1)) \<notin> b_code ` set (p_boreholes p)"
proof -
  let ?cs = "map b_code (p_boreholes p)"
  have tried: "scanTried ?cs 1 = [1..<Suc (scanCodes ?cs 1)]"
    by (rule scanTried_eq)
  have ge: "1 \<le> scanCodes ?cs 1" by (rule scan_ge)
  from tried ge have last: "last (scanTried ?cs 1) = scanCodes ?cs 1"
    by simp
  have "scanCodes ?cs 1 \<le> 1 + length ?cs" by (rule scan_bound)
  with tried ge have len: "length (scanTried ?cs 1) \<le> length (p_boreholes p) + 1"
    by simp
  have "bhCode (scanCodes ?cs 1) \<notin> set ?cs" by (rule scan_unused)
  with last len show ?thesis
    by (simp add: generateBoreholeCode_def)
qed

text \<open>With the codes BH01, BH02 and BH04 the scan tries 1, 2 and 3.\<close>

theorem generateBoreholeCode_terminates_witness:
  "length (scanTried (map b_code (p_boreholes (exampleProject ''p1''
      [exampleBorehole ''a'' ''BH01'', exampleBorehole ''b'' ''BH02'',
       exampleBorehole ''c'' ''BH04'']))) 1) \<le> 4
   \<and> scanTried (map b_code (p_boreholes (exampleProject ''p1''
      [exampleBorehole ''a'' ''BH01'', exampleBorehole ''b'' ''BH02'',
       exampleBorehole ''c'' ''BH04'']))) 1 = [1, 2, 3]"
proof -
  let ?p = "exampleProject ''p1''
      [exampleBorehole ''a'' ''BH01'', exampleBorehole ''b'' ''BH02'',
       exampleBorehole ''c'' ''BH04'']"
  have "length (p_boreholes ?p) + 1 = 4"
    by (simp add: exampleProject_def)
  with generateBoreholeCode_terminates [of ?p]
  have "length (scanTried (map b_code (p_boreholes ?p)) 1) \<le> 4" by simp
  moreover have "scanTried (map b_code (p_boreholes ?p)) 1 = [1, 2, 3]"
    by code_simp
  ultimately show ?thesis by simp
qed

section \<open>Properties of the store\<close>

subsection \<open>Searching and replacing in a sequence\<close>

lemma findIndex_Some:
  "findIndex P xs = Some i \<Longrightarrow> i < length xs \<and> P (xs ! i) \<and> (\<forall>j<i. \<not> P (xs ! j))"
proof (induction xs arbitrary: i)
  case Nil
  then show ?case by simp
next
  case (Cons x xs)
  show ?case
  proof (cases "P x")
    case True
    with Cons.prems show ?thesis by simp
  next
    case False
    with Cons.prems obtain k where k: "findIndex P xs = Some k" and i: "i = Suc k"
      by auto
    from Cons.IH [OF k] False i show ?thesis
      by (auto simp: nth_Cons split: nat.splits)
  qed
qed

lemma findIndex_None: "findIndex P xs = None \<longleftrightarrow> (\<forall>x\<in>set xs. \<not> P x)"
  by (induction xs) auto

lemma find_findIndex: "find P xs = map_option (\<lambda>i. xs ! i) (findIndex P xs)"
  by (induction xs) (auto simp: option.map_comp comp_def)

lemma mutateFirst_findIndex:
  "findIndex P xs = Some i \<Longrightarrow> mutateFirst P f xs = xs[i := f (xs ! i)]"
proof (induction xs arbitrary: i)
  case Nil
  then show ?case by simp
next
  case (Cons x xs)
  then show ?case by (cases "P x") auto
qed

lemma find_Some_index:
  assumes "find P xs = Some x"
  obtains i where "findIndex P xs = Some i" and "i < length xs" and "xs ! i = x"
    and "mutateFirst P f xs = xs[i := f x]"
proof -
  from assms obtain i where i: "findIndex P xs = Some i" and x: "xs ! i = x"
    by (auto simp: find_findIndex)
  from findIndex_Some [OF i] have "i < length xs" by simp
  moreover from mutateFirst_findIndex [OF i] x have "mutateFirst P f xs = xs[i := f x]" by simp
  ultimately show thesis using i x that by blast
qed

subsection \<open>Reading and writing the medium\<close>

lemma getProjects_frame:
  "item (snd (getProjects m)) = item m" "writes (snd (getProjects m)) = writes m"
  "accessible (snd (getProjects m)) = accessible m" "full (snd (getProjects m)) = full m"
  by (simp_all add: getProjects_def console_error_def split: sum.splits)

lemma getProjects_again: "fst (getProjects (snd (getProjects m))) = fst (getProjects m)"
  by (simp add: getProjects_def getProjects_try_def getItem_def console_error_def
      split: sum.splits option.splits)

lemma getProjects_Encoded:
  "accessible m \<Longrightarrow> item m = Some (Encoded ps) \<Longrightarrow> getProjects m = (ps, m)"
  by (simp add: getProjects_def getProjects_try_def getItem_def JSON_parse_def)

lemma saveProjects_ok:
  "accessible m \<Longrightarrow> \<not> full m \<Longrightarrow>
   saveProjects ps m = (Returns (), m\<lparr>item := Some (Encoded ps), writes := Suc (writes m)\<rparr>)"
  by (simp add: saveProjects_def setItem_def JSON_stringify_def)

lemma saveProjects_after_read:
  assumes "accessible m" and "\<not> full m"
  shows "saveProjects ps (snd (getProjects m)) =
     (Returns (), (snd (getProjects m))\<lparr>item := Some (Encoded ps), writes := Suc (writes m)\<rparr>)"
proof -
  from assms have "accessible (snd (getProjects m))" and "\<not> full (snd (getProjects m))"
    by (simp_all add: getProjects_frame)
  then show ?thesis
    by (simp add: saveProjects_ok getProjects_frame)
qed

lemma getProjects_after_write:
  assumes "accessible m"
  shows "fst (getProjects ((snd (getProjects m))\<lparr>item := Some (Encoded ps), writes := w\<rparr>)) = ps"
proof -
  from assms have "accessible ((snd (getProjects m))\<lparr>item := Some (Encoded ps), writes := w\<rparr>)"
    by (simp add: getProjects_frame)
  then show ?thesis
    by (simp add: getProjects_Encoded)
qed

lemma getProjects_any_storageOf:
  "getProjects_any (storageOf m)
     = (ProjectArray (fst (getProjects m)), storageOf (snd (getProjects m)))"
  by (cases "item m"; cases "the (item m)")
    (simp_all add: getProjects_any_def getProjects_any_try_def getItem_any_def
      JSON_parse_any_def storageOf_def textOf_def getProjects_def getProjects_try_def
      getItem_def JSON_parse_def console_error_def)

text \<open>
  Claim C7 fails as stated: a corrupt store does not always give the empty sequence.
  Where the key holds the text \<open>null\<close>, which is valid JSON, nothing is raised:
  getProjects returns the value \<open>null\<close> itself, not an empty sequence, and logs nothing.
\<close>

theorem getProjects_corrupt_counterexample:
  "getProjects_any
     \<lparr>bs_accessible = True, bs_item = Some (JsonText (OtherJson JNull)), bs_console = []\<rparr>
   = (OtherJson JNull,
      \<lparr>bs_accessible = True, bs_item = Some (JsonText (OtherJson JNull)), bs_console = []\<rparr>)
   \<and> OtherJson JNull \<noteq> ProjectArray []"
  by (simp add: getProjects_any_def getProjects_any_try_def getItem_any_def JSON_parse_any_def)

text \<open>
  Claim C7, amended. For every state of the medium, listProjects (getProjects) returns
  what the stored text deserializes to: the persisted project sequence when the text
  encodes one, and, unchecked and without a log line, the value of any other shape when
  the text is valid JSON for it. It returns the empty sequence when the item is absent
  or empty, when the text fails to deserialize, and when the medium cannot be read.
  Whatever the \<open>try\<close> block raises is swallowed: the call still returns (the empty
  sequence) and one line is added to the console; a text that is not JSON raises a
  SyntaxError in the block and an inaccessible medium a SecurityError. The stored item is
  never changed. On the media of the store this is the function \<open>getProjects\<close> used by
  all the operations.
\<close>

theorem getProjects_any_returns:
  "(\<forall>ps. bs_accessible s \<and> bs_item s = Some (JsonText (ProjectArray ps))
        \<longrightarrow> getProjects_any s = (ProjectArray ps, s))
   \<and> (\<forall>j. bs_accessible s \<and> bs_item s = Some (JsonText (OtherJson j))
        \<longrightarrow> getProjects_any s = (OtherJson j, s))
   \<and> (bs_item s = None \<or> bs_item s = Some NoChars \<or> bs_item s = Some NotJson
        \<or> \<not> bs_accessible s
        \<longrightarrow> fst (getProjects_any s) = ProjectArray [])
   \<and> (bs_accessible s \<and> (bs_item s = None \<or> bs_item s = Some NoChars)
        \<longrightarrow> getProjects_any s = (ProjectArray [], s))
   \<and> (\<forall>e. getProjects_any_try s = Inl e
        \<longrightarrow> getProjects_any s
            = (ProjectArray [],
               s\<lparr>bs_console := bs_console s @ [ConsoleError ''Failed to load projects:'' e]\<rparr>))
   \<and> (bs_accessible s \<and> bs_item s = Some NotJson \<longrightarrow> getProjects_any_try s = Inl SyntaxError)
   \<and> (\<not> bs_accessible s \<longrightarrow> getProjects_any_try s = Inl SecurityError)
   \<and> bs_item (snd (getProjects_any s)) = bs_item s
   \<and> (\<forall>m. s = storageOf m
        \<longrightarrow> getProjects_any s
            = (ProjectArray (fst (getProjects m)), storageOf (snd (getProjects m))))"
proof (intro conjI allI impI)
  fix ps assume "bs_accessible s \<and> bs_item s = Some (JsonText (ProjectArray ps))"
  then show "getProjects_any s = (ProjectArray ps, s)"
    by (simp add: getProjects_any_def getProjects_any_try_def getItem_any_def JSON_parse_any_def)
next
  fix j assume "bs_accessible s \<and> bs_item s = Some (JsonText (OtherJson j))"
  then show "getProjects_any s = (OtherJson j, s)"
    by (simp add: getProjects_any_def getProjects_any_try_def getItem_any_def JSON_parse_any_def)
next
  assume "bs_item s = None \<or> bs_item s = Some NoChars \<or> bs_item s = Some NotJson
        \<or> \<not> bs_accessible s"
  then show "fst (getProjects_any s) = ProjectArray []"
    by (auto simp: getProjects_any_def getProjects_any_try_def getItem_any_def
        JSON_parse_any_def split: sum.splits)
next
  assume "bs_accessible s \<and> (bs_item s = None \<or> bs_item s = Some NoChars)"
  then show "getProjects_any s = (ProjectArray [], s)"
    by (auto simp: getProjects_any_def getProjects_any_try_def getItem_any_def)
next
  fix e assume "getProjects_any_try s = Inl e"
  then show "getProjects_any s
            = (ProjectArray [],
               s\<lparr>bs_console := bs_console s @ [ConsoleError ''Failed to load projects:'' e]\<rparr>)"
    by (simp add: getProjects_any_def)
next
  assume "bs_accessible s \<and> bs_item s = Some NotJson"
  then show "getProjects_any_try s = Inl SyntaxError"
    by (simp add: getProjects_any_try_def getItem_any_def JSON_parse_any_def)
next
  assume "\<not> bs_accessible s"
  then show "getProjects_any_try s = Inl SecurityError"
    by (simp add: getProjects_any_try_def getItem_any_def)
next
  show "bs_item (snd (getProjects_any s)) = bs_item s"
    by (simp add: getProjects_any_def split: sum.splits)
next
  fix m assume "s = storageOf m"
  then show "getProjects_any s
            = (ProjectArray (fst (getProjects m)), storageOf (snd (getProjects m)))"
    by (simp add: getProjects_any_storageOf)
qed

text \<open>
  The amended claim at storage holding a project, the text \<open>{"a": 1}\<close>, text that is
  not JSON, no item, and at storage that cannot be read.
\<close>

theorem getProjects_any_returns_witness:
  "getProjects_any (storageOf (exampleMedium [exampleProject ''p1'' []]))
     = (ProjectArray [exampleProject ''p1'' []],
        storageOf (exampleMedium [exampleProject ''p1'' []]))
   \<and> getProjects_any
        \<lparr>bs_accessible = True,
          bs_item = Some (JsonText (OtherJson (JObject [(''a'', JNumber 1)]))),
          bs_console = []\<rparr>
     = (OtherJson (JObject [(''a'', JNumber 1)]),
        \<lparr>bs_accessible = True,
          bs_item = Some (JsonText (OtherJson (JObject [(''a'', JNumber 1)]))),
          bs_console = []\<rparr>)
   \<and> getProjects_any \<lparr>bs_accessible = True, bs_item = Some NotJson, bs_console = []\<rparr>
     = (ProjectArray [],
        \<lparr>bs_accessible = True, bs_item = Some NotJson,
          bs_console = [ConsoleError ''Failed to load projects:'' SyntaxError]\<rparr>)
   \<and> getProjects_any \<lparr>bs_accessible = True, bs_item = None, bs_console = []\<rparr>
     = (ProjectArray [], \<lparr>bs_accessible = True, bs_item = None, bs_console = []\<rparr>)
   \<and> getProjects_any \<lparr>bs_accessible = False, bs_item = Some NotJson, bs_console = []\<rparr>
     = (ProjectArray [],
        \<lparr>bs_accessible = False, bs_item = Some NotJson,
          bs_console = [ConsoleError ''Failed to load projects:'' SecurityError]\<rparr>)"
proof -
  let ?good = "storageOf (exampleMedium [exampleProject ''p1'' []])"
  let ?obj = "\<lparr>bs_accessible = True,
          bs_item = Some (JsonText (OtherJson (JObject [(''a'', JNumber 1)]))),
          bs_console = []\<rparr>"
  let ?bad = "\<lparr>bs_accessible = True, bs_item = Some NotJson, bs_console = []\<rparr>"
  let ?none = "\<lparr>bs_accessible = True, bs_item = None, bs_console = []\<rparr>"
  let ?blocked = "\<lparr>bs_accessible = False, bs_item = Some NotJson, bs_console = []\<rparr>"
  have "bs_accessible ?good
      \<and> bs_item ?good = Some (JsonText (ProjectArray [exampleProject ''p1'' []]))"
    by (simp add: storageOf_def textOf_def exampleMedium_def JSON_stringify_def)
  with getProjects_any_returns [of ?good]
  have good: "getProjects_any ?good = (ProjectArray [exampleProject ''p1'' []], ?good)"
    by blast
  have "bs_accessible ?obj
      \<and> bs_item ?obj = Some (JsonText (OtherJson (JObject [(''a'', JNumber 1)])))"
    by simp
  with getProjects_any_returns [of ?obj]
  have obj: "getProjects_any ?obj = (OtherJson (JObject [(''a'', JNumber 1)]), ?obj)"
    by blast
  have "bs_accessible ?bad \<and> bs_item ?bad = Some NotJson" by simp
  with getProjects_any_returns [of ?bad]
  have "getProjects_any_try ?bad = Inl SyntaxError" by blast
  with getProjects_any_returns [of ?bad]
  have "getProjects_any ?bad = (ProjectArray [],
      ?bad\<lparr>bs_console := bs_console ?bad @ [ConsoleError ''Failed to load projects:'' SyntaxError]\<rparr>)"
    by blast
  then have bad: "getProjects_any ?bad = (ProjectArray [],
        \<lparr>bs_accessible = True, bs_item = Some NotJson,
          bs_console = [ConsoleError ''Failed to load projects:'' SyntaxError]\<rparr>)"
    by simp
  have "bs_accessible ?none \<and> (bs_item ?none = None \<or> bs_item ?none = Some NoChars)" by simp
  with getProjects_any_returns [of ?none]
  have none: "getProjects_any ?none = (ProjectArray [], ?none)" by blast
  have "\<not> bs_accessible ?blocked" by simp
  with getProjects_any_returns [of ?blocked]
  have "getProjects_any_try ?blocked = Inl SecurityError" by blast
  with getProjects_any_returns [of ?blocked]
  have "getProjects_any ?blocked = (ProjectArray [],
      ?blocked\<lparr>bs_console := bs_console ?blocked
         @ [ConsoleError ''Failed to load projects:'' SecurityError]\<rparr>)"
    by blast
  then have blocked: "getProjects_any ?blocked = (ProjectArray [],
        \<lparr>bs_accessible = False, bs_item = Some NotJson,
          bs_console = [ConsoleError ''Failed to load projects:'' SecurityError]\<rparr>)"
    by simp
  from good obj bad none blocked show ?thesis by blast
qed

subsection \<open>Evaluating the store on the example data\<close>

text \<open>Unfolding the whole store on concrete data.\<close>

lemmas store_eval =
  getProjects_def getProjects_try_def getItem_def setItem_def JSON_parse_def JSON_stringify_def
  saveProjects_def console_error_def getProject_def Let_def
  or_string_def or_value_def or_null_def spread_def
  exampleMedium_def exampleProject_def exampleBorehole_def
  emptyProjectUpdates_def emptyBoreholeUpdates_def

lemma example_fields:
  "p_id (exampleProject i bs) = i" "p_boreholes (exampleProject i bs) = bs"
  "b_id (exampleBorehole j c) = j" "b_code (exampleBorehole j c) = c"
  by (simp_all add: exampleProject_def exampleBorehole_def)

subsection \<open>deleteBorehole\<close>

lemma length_filter_same: "length (filter P xs) = length xs \<longleftrightarrow> (\<forall>x\<in>set xs. P x)"
proof
  assume same: "length (filter P xs) = length xs"
  show "\<forall>x\<in>set xs. P x"
  proof (rule ccontr)
    assume "\<not> (\<forall>x\<in>set xs. P x)"
    then obtain x where "x \<in> set xs" and "\<not> P x" by blast
    then have "length (filter P xs) < length xs" by (rule length_filter_less)
    with same show False by simp
  qed
next
  assume "\<forall>x\<in>set xs. P x"
  then show "length (filter P xs) = length xs" by simp
qed

lemma deleteBorehole_no_project:
  assumes "find (\<lambda>p. p_id p = projectId) (fst (getProjects m)) = None"
  shows "deleteBorehole projectId boreholeId now m = (Returns False, snd (getProjects m))"
  using assms by (cases "getProjects m") (simp add: deleteBorehole_def)

lemma deleteBorehole_no_borehole:
  assumes "find (\<lambda>p. p_id p = projectId) (fst (getProjects m)) = Some project"
    and "boreholeId \<notin> b_id ` set (p_boreholes project)"
  shows "deleteBorehole projectId boreholeId now m = (Returns False, snd (getProjects m))"
proof -
  from assms(2) have "length (filter (\<lambda>b. b_id b \<noteq> boreholeId) (p_boreholes project))
      = length (p_boreholes project)"
    by (auto simp: length_filter_same)
  with assms(1) show ?thesis
    by (cases "getProjects m") (simp add: deleteBorehole_def Let_def)
qed

lemma deleteBorehole_found:
  assumes "find (\<lambda>p. p_id p = projectId) (fst (getProjects m)) = Some project"
    and "boreholeId \<in> b_id ` set (p_boreholes project)"
  shows "deleteBorehole projectId boreholeId now m =
     (case saveProjects
        (mutateFirst (\<lambda>p. p_id p = projectId)
           (\<lambda>p. p\<lparr>p_boreholes := filter (\<lambda>b. b_id b \<noteq> boreholeId) (p_boreholes project),
                    p_updatedAt := now\<rparr>) (fst (getProjects m)))
        (snd (getProjects m)) of
        (Throws e, m2) \<Rightarrow> (Throws e, m2)
      | (Returns u, m2) \<Rightarrow> (Returns True, m2))"
proof -
  from assms(2) have "length (filter (\<lambda>b. b_id b \<noteq> boreholeId) (p_boreholes project))
      \<noteq> length (p_boreholes project)"
    by (auto simp: length_filter_same)
  with assms(1) show ?thesis
    by (cases "getProjects m") (simp add: deleteBorehole_def Let_def)
qed

text \<open>
  Claim C6. When no matching borehole exists in the store (no project has the given id,
  or the project found has no borehole with the given id), deleteBorehole returns false
  and the stored text is untouched: the item is the same, no write has been made, and
  the collection reads back as before. When the project found has a borehole with the
  given id and the medium takes the write, every borehole with that id is removed from
  that project (the others keep their order), the project's updatedAt is stamped, the
  collection with that one project replaced is persisted by one write, and true is
  returned.
\<close>

theorem deleteBorehole_effect:
  fixes m :: medium and projectId boreholeId now :: string
  defines "stored \<equiv> fst (getProjects m)"
    and "after \<equiv> deleteBorehole projectId boreholeId now m"
  shows
   "(\<not> (\<exists>project. find (\<lambda>p. p_id p = projectId) stored = Some project
                   \<and> boreholeId \<in> b_id ` set (p_boreholes project))
       \<longrightarrow> fst after = Returns False \<and> item (snd after) = item m
           \<and> writes (snd after) = writes m \<and> fst (getProjects (snd after)) = stored)
    \<and> (\<forall>project. find (\<lambda>p. p_id p = projectId) stored = Some project
                   \<and> boreholeId \<in> b_id ` set (p_boreholes project)
                   \<and> accessible m \<and> \<not> full m
       \<longrightarrow> fst after = Returns True \<and> writes (snd after) = Suc (writes m)
           \<and> (\<exists>i<length stored. stored ! i = project
                 \<and> fst (getProjects (snd after)) =
                     stored[i := project\<lparr>p_boreholes :=
                                          filter (\<lambda>b. b_id b \<noteq> boreholeId) (p_boreholes project),
                                        p_updatedAt := now\<rparr>]))"
proof (rule conjI; intro allI impI)
  assume none: "\<not> (\<exists>project. find (\<lambda>p. p_id p = projectId) stored = Some project
                   \<and> boreholeId \<in> b_id ` set (p_boreholes project))"
  have "after = (Returns False, snd (getProjects m))"
  proof (cases "find (\<lambda>p. p_id p = projectId) stored")
    case None
    then show ?thesis
      unfolding after_def stored_def by (rule deleteBorehole_no_project)
  next
    case (Some project)
    with none have "boreholeId \<notin> b_id ` set (p_boreholes project)" by blast
    with Some show ?thesis
      unfolding after_def stored_def by (rule deleteBorehole_no_borehole)
  qed
  then show "fst after = Returns False \<and> item (snd after) = item m
           \<and> writes (snd after) = writes m \<and> fst (getProjects (snd after)) = stored"
    by (simp add: getProjects_frame getProjects_again stored_def)
next
  fix project
  assume h: "find (\<lambda>p. p_id p = projectId) stored = Some project
                   \<and> boreholeId \<in> b_id ` set (p_boreholes project)
                   \<and> accessible m \<and> \<not> full m"
  let ?f = "\<lambda>p. p\<lparr>p_boreholes := filter (\<lambda>b. b_id b \<noteq> boreholeId) (p_boreholes project),
                    p_updatedAt := now\<rparr>"
  let ?ps = "mutateFirst (\<lambda>p. p_id p = projectId) ?f stored"
  from h have acc: "accessible m" and nf: "\<not> full m" by simp_all
  from h have "after = (case saveProjects ?ps (snd (getProjects m)) of
        (Throws e, m2) \<Rightarrow> (Throws e, m2) | (Returns u, m2) \<Rightarrow> (Returns True, m2))"
    unfolding after_def stored_def by (intro deleteBorehole_found) simp_all
  then have after: "after = (Returns True,
      (snd (getProjects m))\<lparr>item := Some (Encoded ?ps), writes := Suc (writes m)\<rparr>)"
    by (simp add: saveProjects_after_read [OF acc nf])
  from h have found: "find (\<lambda>p. p_id p = projectId) stored = Some project" by simp
  from found obtain i where i: "i < length stored" and si: "stored ! i = project"
      and mf: "?ps = stored[i := ?f project]"
    by (rule find_Some_index)
  have "fst (getProjects (snd after)) = ?ps"
    unfolding after by (simp add: getProjects_after_write [OF acc])
  then have r: "fst (getProjects (snd after)) = stored[i := ?f project]"
    unfolding mf .
  from i si r have ex: "\<exists>i<length stored. stored ! i = project
                 \<and> fst (getProjects (snd after)) = stored[i := ?f project]"
    by blast
  have w: "writes (snd after) = Suc (writes m)"
    unfolding after by simp
  have t: "fst after = Returns True"
    unfolding after by simp
  from t w ex show "fst after = Returns True \<and> writes (snd after) = Suc (writes m)
           \<and> (\<exists>i<length stored. stored ! i = project
                 \<and> fst (getProjects (snd after)) = stored[i := ?f project])"
    by blast
qed


text \<open>
  The claim at a store holding one project with the boreholes \<open>a\<close> and \<open>b\<close>: deleting
  \<open>b\<close> returns true and leaves \<open>a\<close>; deleting an unknown id returns false and
  leaves the item alone.
\<close>

theorem deleteBorehole_effect_witness:
  "fst (deleteBorehole ''p1'' ''b'' ''2024-06-01T10:00:00.000Z''
         (exampleMedium [exampleProject ''p1''
            [exampleBorehole ''a'' ''BH01'', exampleBorehole ''b'' ''BH02'']])) = Returns True
   \<and> fst (getProjects (snd (deleteBorehole ''p1'' ''b'' ''2024-06-01T10:00:00.000Z''
         (exampleMedium [exampleProject ''p1''
            [exampleBorehole ''a'' ''BH01'', exampleBorehole ''b'' ''BH02'']]))))
       = [(exampleProject ''p1'' [exampleBorehole ''a'' ''BH01''])
            \<lparr>p_updatedAt := ''2024-06-01T10:00:00.000Z''\<rparr>]
   \<and> deleteBorehole ''p1'' ''zz'' ''2024-06-01T10:00:00.000Z''
         (exampleMedium [exampleProject ''p1''
            [exampleBorehole ''a'' ''BH01'', exampleBorehole ''b'' ''BH02'']])
       = (Returns False, exampleMedium [exampleProject ''p1''
            [exampleBorehole ''a'' ''BH01'', exampleBorehole ''b'' ''BH02'']])"
proof -
  let ?p = "exampleProject ''p1'' [exampleBorehole ''a'' ''BH01'', exampleBorehole ''b'' ''BH02'']"
  let ?m = "exampleMedium [?p]"
  let ?now = "''2024-06-01T10:00:00.000Z''"
  have get: "getProjects ?m = ([?p], ?m)"
    by (simp add: getProjects_Encoded exampleMedium_def JSON_stringify_def)
  have pid: "p_id ?p = ''p1''" and bs: "b_id ` set (p_boreholes ?p) = {''a'', ''b''}"
    by (simp_all add: exampleProject_def exampleBorehole_def)
  have ok: "accessible ?m \<and> \<not> full ?m"
    by (simp add: exampleMedium_def)
  have found: "find (\<lambda>p. p_id p = ''p1'') (fst (getProjects ?m)) = Some ?p"
    by (simp add: get pid)
  from found bs ok deleteBorehole_effect [of "''p1''" ?m "''b''" ?now]
  have "fst (deleteBorehole ''p1'' ''b'' ?now ?m) = Returns True"
    by simp
  moreover
  from found bs deleteBorehole_effect [of "''p1''" ?m "''zz''" ?now]
  have "fst (deleteBorehole ''p1'' ''zz'' ?now ?m) = Returns False"
    by simp
  moreover have "fst (getProjects (snd (deleteBorehole ''p1'' ''b'' ?now ?m)))
       = [(exampleProject ''p1'' [exampleBorehole ''a'' ''BH01''])\<lparr>p_updatedAt := ?now\<rparr>]"
    by (simp add: deleteBorehole_def store_eval)
  moreover have "snd (deleteBorehole ''p1'' ''zz'' ?now ?m) = ?m"
    by (simp add: deleteBorehole_def store_eval)
  ultimately show ?thesis
    by (simp add: prod_eq_iff)
qed

subsection \<open>createProject\<close>




subsection \<open>updateProject\<close>

lemma updateProject_not_found:
  assumes "findIndex (\<lambda>p. p_id p = projectId) (fst (getProjects m)) = None"
  shows "updateProject projectId updates now m = (Returns None, snd (getProjects m))"
  using assms by (cases "getProjects m") (simp add: updateProject_def)

lemma updateProject_found:
  assumes "findIndex (\<lambda>p. p_id p = projectId) (fst (getProjects m)) = Some i"
    and "accessible m" and "\<not> full m"
  shows "updateProject projectId updates now m =
     (Returns (Some ((spreadProject (fst (getProjects m) ! i) updates)\<lparr>p_updatedAt := now\<rparr>)),
      (snd (getProjects m))
        \<lparr>item := Some (Encoded ((fst (getProjects m))
                  [i := (spreadProject (fst (getProjects m) ! i) updates)\<lparr>p_updatedAt := now\<rparr>])),
         writes := Suc (writes m)\<rparr>)"
proof -
  from findIndex_Some [OF assms(1)] have "i < length (fst (getProjects m))" by simp
  with assms(1) saveProjects_after_read [OF assms(2,3)] show ?thesis
    by (cases "getProjects m") (simp add: updateProject_def Let_def)
qed

text \<open>
  Claim C2 fails as stated: updateProject has no run-time whitelist. An updates object
  that holds \<open>id\<close>, \<open>createdAt\<close> and \<open>boreholes\<close> overwrites all three: here the project
  \<open>p1\<close> with one borehole comes back, and is stored, as \<open>p2\<close> with another creation date
  and no boreholes.
\<close>

theorem updateProject_whitelist_counterexample:
  "updateProject ''p1''
     (emptyProjectUpdates\<lparr>u_id := Some ''p2'', u_boreholes := Some [],
                           u_createdAt := Some ''1999-01-01T00:00:00.000Z''\<rparr>)
     ''2024-06-01T10:00:00.000Z''
     (exampleMedium [exampleProject ''p1'' [exampleBorehole ''a'' ''BH01'']])
   = (Returns (Some ((exampleProject ''p2'' [])
                 \<lparr>p_createdAt := ''1999-01-01T00:00:00.000Z'',
                   p_updatedAt := ''2024-06-01T10:00:00.000Z''\<rparr>)),
      (exampleMedium [(exampleProject ''p2'' [])
                 \<lparr>p_createdAt := ''1999-01-01T00:00:00.000Z'',
                   p_updatedAt := ''2024-06-01T10:00:00.000Z''\<rparr>])\<lparr>writes := 1\<rparr>)"
  by (simp add: updateProject_def spreadProject_def store_eval)

text \<open>
  Claim C2, amended. updateProject merges every field that partialFields holds into the
  first stored project with the given id, by object spread; only the static type of the
  parameter leaves out \<open>id\<close>, \<open>createdAt\<close> and \<open>boreholes\<close>, so each of these three
  fields keeps its prior value whenever partialFields does not hold it. Whatever
  partialFields holds, updatedAt is stamped to now; on a medium that takes the write the
  collection with that one record replaced is persisted and the updated record is
  returned. If no stored project has the given id, the call returns absent and the
  stored collection is unchanged (same item, no write).
\<close>

theorem updateProject_effect:
  fixes m :: medium and projectId now :: string and updates :: projectUpdates
  defines "stored \<equiv> fst (getProjects m)"
    and "after \<equiv> updateProject projectId updates now m"
  shows
   "(\<forall>i. findIndex (\<lambda>p. p_id p = projectId) stored = Some i \<and> accessible m \<and> \<not> full m
       \<longrightarrow> (\<exists>P'. fst after = Returns (Some P')
              \<and> fst (getProjects (snd after)) = stored[i := P']
              \<and> p_updatedAt P' = now
              \<and> (u_id updates = None \<longrightarrow> p_id P' = p_id (stored ! i))
              \<and> (u_createdAt updates = None \<longrightarrow> p_createdAt P' = p_createdAt (stored ! i))
              \<and> (u_boreholes updates = None \<longrightarrow> p_boreholes P' = p_boreholes (stored ! i))
              \<and> p_id P' = spread (p_id (stored ! i)) (u_id updates)
              \<and> p_createdAt P' = spread (p_createdAt (stored ! i)) (u_createdAt updates)
              \<and> p_boreholes P' = spread (p_boreholes (stored ! i)) (u_boreholes updates)
              \<and> p_name P' = spread (p_name (stored ! i)) (u_name updates)
              \<and> p_client P' = spread (p_client (stored ! i)) (u_client updates)
              \<and> p_locationDescription P'
                  = spread (p_locationDescription (stored ! i)) (u_locationDescription updates)
              \<and> p_coordinateSystem P'
                  = spread (p_coordinateSystem (stored ! i)) (u_coordinateSystem updates)
              \<and> p_status P' = spread (p_status (stored ! i)) (u_status updates)))
    \<and> ((\<forall>p\<in>set stored. p_id p \<noteq> projectId)
       \<longrightarrow> fst after = Returns None \<and> item (snd after) = item m
           \<and> writes (snd after) = writes m \<and> fst (getProjects (snd after)) = stored)"
proof (rule conjI; intro allI impI)
  fix i
  assume h: "findIndex (\<lambda>p. p_id p = projectId) stored = Some i \<and> accessible m \<and> \<not> full m"
  let ?P = "(spreadProject (stored ! i) updates)\<lparr>p_updatedAt := now\<rparr>"
  from h have idx: "findIndex (\<lambda>p. p_id p = projectId) (fst (getProjects m)) = Some i"
    and acc: "accessible m" and nf: "\<not> full m"
    by (simp_all add: stored_def)
  have after: "after = (Returns (Some ?P),
      (snd (getProjects m))\<lparr>item := Some (Encoded (stored[i := ?P])), writes := Suc (writes m)\<rparr>)"
    unfolding after_def stored_def by (rule updateProject_found [OF idx acc nf])
  have ret: "fst after = Returns (Some ?P)"
    unfolding after by simp
  have read: "fst (getProjects (snd after)) = stored[i := ?P]"
    unfolding after by (simp add: getProjects_after_write [OF acc])
  have fields: "p_updatedAt ?P = now"
      "p_id ?P = spread (p_id (stored ! i)) (u_id updates)"
      "p_createdAt ?P = spread (p_createdAt (stored ! i)) (u_createdAt updates)"
      "p_boreholes ?P = spread (p_boreholes (stored ! i)) (u_boreholes updates)"
      "p_name ?P = spread (p_name (stored ! i)) (u_name updates)"
      "p_client ?P = spread (p_client (stored ! i)) (u_client updates)"
      "p_locationDescription ?P
         = spread (p_locationDescription (stored ! i)) (u_locationDescription updates)"
      "p_coordinateSystem ?P
         = spread (p_coordinateSystem (stored ! i)) (u_coordinateSystem updates)"
      "p_status ?P = spread (p_status (stored ! i)) (u_status updates)"
    by (simp_all add: spreadProject_def)
  have kept: "u_id updates = None \<longrightarrow> p_id ?P = p_id (stored ! i)"
      "u_createdAt updates = None \<longrightarrow> p_createdAt ?P = p_createdAt (stored ! i)"
      "u_boreholes updates = None \<longrightarrow> p_boreholes ?P = p_boreholes (stored ! i)"
    by (simp_all add: spreadProject_def spread_def)
  from ret read fields kept
  show "\<exists>P'. fst after = Returns (Some P')
              \<and> fst (getProjects (snd after)) = stored[i := P']
              \<and> p_updatedAt P' = now
              \<and> (u_id updates = None \<longrightarrow> p_id P' = p_id (stored ! i))
              \<and> (u_createdAt updates = None \<longrightarrow> p_createdAt P' = p_createdAt (stored ! i))
              \<and> (u_boreholes updates = None \<longrightarrow> p_boreholes P' = p_boreholes (stored ! i))
              \<and> p_id P' = spread (p_id (stored ! i)) (u_id updates)
              \<and> p_createdAt P' = spread (p_createdAt (stored ! i)) (u_createdAt updates)
              \<and> p_boreholes P' = spread (p_boreholes (stored ! i)) (u_boreholes updates)
              \<and> p_name P' = spread (p_name (stored ! i)) (u_name updates)
              \<and> p_client P' = spread (p_client (stored ! i)) (u_client updates)
              \<and> p_locationDescription P'
                  = spread (p_locationDescription (stored ! i)) (u_locationDescription updates)
              \<and> p_coordinateSystem P'
                  = spread (p_coordinateSystem (stored ! i)) (u_coordinateSystem updates)
              \<and> p_status P' = spread (p_status (stored ! i)) (u_status updates)"
    by (intro exI [of _ ?P] conjI)
next
  assume "\<forall>p\<in>set stored. p_id p \<noteq> projectId"
  then have "findIndex (\<lambda>p. p_id p = projectId) (fst (getProjects m)) = None"
    by (simp add: findIndex_None stored_def)
  then have "after = (Returns None, snd (getProjects m))"
    unfolding after_def by (rule updateProject_not_found)
  then show "fst after = Returns None \<and> item (snd after) = item m
           \<and> writes (snd after) = writes m \<and> fst (getProjects (snd after)) = stored"
    by (simp add: getProjects_frame getProjects_again stored_def)
qed

text \<open>
  The amended claim at a store with the project \<open>p1\<close>: renaming it keeps id, createdAt
  and boreholes; updating an unknown id returns absent and writes nothing.
\<close>

theorem updateProject_effect_witness:
  "fst (updateProject ''p1'' (emptyProjectUpdates\<lparr>u_name := Some ''Renamed''\<rparr>)
         ''2024-06-01T10:00:00.000Z''
         (exampleMedium [exampleProject ''p1'' [exampleBorehole ''a'' ''BH01'']]))
     = Returns (Some ((exampleProject ''p1'' [exampleBorehole ''a'' ''BH01''])
                  \<lparr>p_name := ''Renamed'', p_updatedAt := ''2024-06-01T10:00:00.000Z''\<rparr>))
   \<and> fst (updateProject ''zz'' (emptyProjectUpdates\<lparr>u_name := Some ''Renamed''\<rparr>)
         ''2024-06-01T10:00:00.000Z''
         (exampleMedium [exampleProject ''p1'' [exampleBorehole ''a'' ''BH01'']]))
     = Returns None
   \<and> writes (snd (updateProject ''zz'' (emptyProjectUpdates\<lparr>u_name := Some ''Renamed''\<rparr>)
         ''2024-06-01T10:00:00.000Z''
         (exampleMedium [exampleProject ''p1'' [exampleBorehole ''a'' ''BH01'']]))) = 0"
proof -
  let ?p = "exampleProject ''p1'' [exampleBorehole ''a'' ''BH01'']"
  let ?m = "exampleMedium [?p]"
  let ?u = "emptyProjectUpdates\<lparr>u_name := Some ''Renamed''\<rparr>"
  let ?now = "''2024-06-01T10:00:00.000Z''"
  have stored: "fst (getProjects ?m) = [?p]"
    by (simp add: getProjects_Encoded exampleMedium_def JSON_stringify_def)
  have ok: "accessible ?m \<and> \<not> full ?m" and w: "writes ?m = 0"
    by (simp_all add: exampleMedium_def)
  have idx: "findIndex (\<lambda>p. p_id p = ''p1'') (fst (getProjects ?m)) = Some 0"
    by (simp add: stored example_fields)
  have none: "\<forall>p\<in>set (fst (getProjects ?m)). p_id p \<noteq> ''zz''"
    by (simp add: stored example_fields)
  from updateProject_effect [of "''p1''" ?m ?u ?now] idx ok
  obtain P' where ret: "fst (updateProject ''p1'' ?u ?now ?m) = Returns (Some P')"
    and upd: "p_updatedAt P' = ?now"
    by blast
  have "fst (updateProject ''p1'' ?u ?now ?m)
     = Returns (Some (?p\<lparr>p_name := ''Renamed'', p_updatedAt := ?now\<rparr>))"
    by (simp add: updateProject_def spreadProject_def store_eval)
  moreover from updateProject_effect [of "''zz''" ?m ?u ?now] none w
  have "fst (updateProject ''zz'' ?u ?now ?m) = Returns None
      \<and> writes (snd (updateProject ''zz'' ?u ?now ?m)) = 0"
    by simp
  ultimately show ?thesis by blast
qed

subsection \<open>addBorehole\<close>

lemma find_mutateFirst:
  assumes "find (\<lambda>p. p_id p = projectId) ps = Some project"
    and "\<And>p. p_id (f p) = p_id p"
  shows "find (\<lambda>p. p_id p = projectId) (mutateFirst (\<lambda>p. p_id p = projectId) f ps)
       = Some (f project)"
  using assms by (induction ps) (auto split: if_splits)

lemma saveProjects_cases:
  "saveProjects ps m =
     (if accessible m \<and> \<not> full m
      then (Returns (), m\<lparr>item := Some (Encoded ps), writes := Suc (writes m)\<rparr>)
      else (Throws (Error ''Failed to save data''),
            console_error ''Failed to save projects:''
              (if accessible m then QuotaExceededError else SecurityError) m))"
  by (simp add: saveProjects_def setItem_def JSON_stringify_def)

lemma addBorehole_not_found:
  assumes "find (\<lambda>p. p_id p = projectId) (fst (getProjects m)) = None"
  shows "addBorehole projectId data uuid now m = (Returns None, snd (getProjects m))"
  using assms by (cases "getProjects m") (simp add: addBorehole_def)

lemma addBorehole_found:
  fixes data :: boreholeData
  defines "B project uuid now \<equiv>
     \<lparr>b_id = uuid,
      b_code = or_string (a_code data) (generateBoreholeCode project),
      b_name = a_name data, b_latitude = a_latitude data, b_longitude = a_longitude data,
      b_groundLevel = or_null (a_groundLevel data), b_totalDepth = or_null (a_totalDepth data),
      b_status = or_value (a_status data) Planned,
      b_notes = Some (or_string (a_notes data) ''''),
      b_createdAt = now, b_updatedAt = now\<rparr>"
  assumes "find (\<lambda>p. p_id p = projectId) (fst (getProjects m)) = Some project"
  shows "addBorehole projectId data uuid now m =
     (case saveProjects
        (mutateFirst (\<lambda>p. p_id p = projectId)
           (\<lambda>p. p\<lparr>p_boreholes := p_boreholes p @ [B project uuid now], p_updatedAt := now\<rparr>)
           (fst (getProjects m)))
        (snd (getProjects m)) of
        (Throws e, m2) \<Rightarrow> (Throws e, m2)
      | (Returns u, m2) \<Rightarrow> (Returns (Some (B project uuid now)), m2))"
  using assms(2) unfolding B_def
  by (cases "getProjects m") (simp add: addBorehole_def Let_def)

lemma bhCode_not_empty: "bhCode n \<noteq> []"
  by (simp add: bhCode_def)

lemma generateBoreholeCode_not_empty: "generateBoreholeCode p \<noteq> []"
  by (simp add: generateBoreholeCode_def Let_def bhCode_not_empty)

lemma generateBoreholeCode_no_boreholes: "p_boreholes p = [] \<Longrightarrow> generateBoreholeCode p = ''BH01''"
proof -
  assume "p_boreholes p = []"
  then have "generateBoreholeCode p = bhCode (scanCodes [] 1)"
    by (simp add: generateBoreholeCode_def)
  also have "scanCodes [] 1 = 1" by (subst scanCodes.simps) simp
  also have "bhCode 1 = ''BH01''" by code_simp
  finally show ?thesis .
qed

text \<open>
  Claim C3 fails as stated at one point: an explicitly supplied code is not always
  accepted as it is. The code is taken with \<open>data.code || generateBoreholeCode(project)\<close>,
  so the empty string, although supplied, is replaced by the generated code.
\<close>

theorem addBorehole_empty_code_counterexample:
  "fst (addBorehole ''p1''
         \<lparr>a_code = Some '''', a_name = None, a_latitude = - 36.84, a_longitude = 174.76,
           a_groundLevel = Undefined, a_totalDepth = Undefined, a_status = None,
           a_notes = None\<rparr>
         ''b1'' ''2024-06-01T10:00:00.000Z'' (exampleMedium [exampleProject ''p1'' []]))
   = Returns (Some \<lparr>b_id = ''b1'', b_code = ''BH01'', b_name = None,
                     b_latitude = - 36.84, b_longitude = 174.76,
                     b_groundLevel = Null, b_totalDepth = Null, b_status = Planned,
                     b_notes = Some '''', b_createdAt = ''2024-06-01T10:00:00.000Z'',
                     b_updatedAt = ''2024-06-01T10:00:00.000Z''\<rparr>)"
proof -
  have "generateBoreholeCode (exampleProject ''p1'' []) = ''BH01''"
    by (rule generateBoreholeCode_no_boreholes) (simp add: example_fields)
  then show ?thesis
    by (simp add: addBorehole_def getProjects_Encoded saveProjects_cases example_fields
        exampleMedium_def JSON_stringify_def or_string_def or_null_def or_value_def Let_def)
qed


text \<open>
  Claim C3, amended. For every addBorehole call on an existing projectId (latitude and
  longitude are required by the argument's type), on a medium that takes the write, the
  returned borehole has the generated identifier, the code generated by
  generateBoreholeCode from the found project when no code or the empty string is
  supplied, and a supplied non-empty code as it is (whether or not the project already
  has that code); status Planned when absent; groundLevel and totalDepth null when
  absent, undefined or null; notes the empty string when absent; name and coordinates as
  supplied; createdAt = updatedAt = now. The borehole is appended at the end of the
  found project's boreholes, whose order is kept, the project's updatedAt is stamped with
  now, and the collection with that one project replaced is persisted. If no stored
  project has the given id the call returns absent and nothing is written.
\<close>

theorem addBorehole_effect:
  fixes m :: medium and projectId uuid now :: string and data :: boreholeData
  defines "stored \<equiv> fst (getProjects m)"
    and "after \<equiv> addBorehole projectId data uuid now m"
  shows
   "(\<forall>project. find (\<lambda>p. p_id p = projectId) stored = Some project
                 \<and> accessible m \<and> \<not> full m
       \<longrightarrow> (\<exists>B. fst after = Returns (Some B)
              \<and> b_id B = uuid
              \<and> b_code B = (case a_code data of
                              None \<Rightarrow> generateBoreholeCode project
                            | Some c \<Rightarrow> if c = [] then generateBoreholeCode project else c)
              \<and> b_status B = (case a_status data of None \<Rightarrow> Planned | Some s \<Rightarrow> s)
              \<and> b_groundLevel B = (case a_groundLevel data of Val v \<Rightarrow> Val v | _ \<Rightarrow> Null)
              \<and> b_totalDepth B = (case a_totalDepth data of Val v \<Rightarrow> Val v | _ \<Rightarrow> Null)
              \<and> b_notes B = Some (case a_notes data of None \<Rightarrow> [] | Some n \<Rightarrow> n)
              \<and> b_name B = a_name data
              \<and> b_latitude B = a_latitude data \<and> b_longitude B = a_longitude data
              \<and> b_createdAt B = now \<and> b_updatedAt B = now
              \<and> (\<exists>i<length stored. stored ! i = project
                    \<and> fst (getProjects (snd after)) =
                        stored[i := project\<lparr>p_boreholes := p_boreholes project @ [B],
                                           p_updatedAt := now\<rparr>])))
    \<and> ((\<forall>p\<in>set stored. p_id p \<noteq> projectId)
       \<longrightarrow> fst after = Returns None \<and> item (snd after) = item m
           \<and> writes (snd after) = writes m)"
proof (rule conjI; intro allI impI)
  fix project
  assume h: "find (\<lambda>p. p_id p = projectId) stored = Some project \<and> accessible m \<and> \<not> full m"
  let ?B = "\<lparr>b_id = uuid,
      b_code = or_string (a_code data) (generateBoreholeCode project),
      b_name = a_name data, b_latitude = a_latitude data, b_longitude = a_longitude data,
      b_groundLevel = or_null (a_groundLevel data), b_totalDepth = or_null (a_totalDepth data),
      b_status = or_value (a_status data) Planned,
      b_notes = Some (or_string (a_notes data) []),
      b_createdAt = now, b_updatedAt = now\<rparr>"
  let ?f = "\<lambda>p. p\<lparr>p_boreholes := p_boreholes p @ [?B], p_updatedAt := now\<rparr>"
  let ?ps = "mutateFirst (\<lambda>p. p_id p = projectId) ?f stored"
  from h have found: "find (\<lambda>p. p_id p = projectId) (fst (getProjects m)) = Some project"
    and acc: "accessible m" and nf: "\<not> full m"
    by (simp_all add: stored_def)
  have after: "after = (Returns (Some ?B),
      (snd (getProjects m))\<lparr>item := Some (Encoded ?ps), writes := Suc (writes m)\<rparr>)"
    unfolding after_def stored_def
    by (simp add: addBorehole_found [OF found] saveProjects_after_read [OF acc nf])
  have ret: "fst after = Returns (Some ?B)"
    unfolding after by simp
  from found obtain i where i: "i < length stored" and si: "stored ! i = project"
      and mf: "?ps = stored[i := ?f project]"
    unfolding stored_def by (rule find_Some_index)
  have "fst (getProjects (snd after)) = ?ps"
    unfolding after by (simp add: getProjects_after_write [OF acc])
  then have "fst (getProjects (snd after)) = stored[i := ?f project]"
    unfolding mf .
  with i si have ex: "\<exists>i<length stored. stored ! i = project
      \<and> fst (getProjects (snd after)) =
          stored[i := project\<lparr>p_boreholes := p_boreholes project @ [?B], p_updatedAt := now\<rparr>]"
    by blast
  have code: "b_code ?B = (case a_code data of
                              None \<Rightarrow> generateBoreholeCode project
                            | Some c \<Rightarrow> if c = [] then generateBoreholeCode project else c)"
    by (simp add: or_string_def)
  have status: "b_status ?B = (case a_status data of None \<Rightarrow> Planned | Some s \<Rightarrow> s)"
    by (simp add: or_value_def)
  have levels: "b_groundLevel ?B = (case a_groundLevel data of Val v \<Rightarrow> Val v | _ \<Rightarrow> Null)"
      "b_totalDepth ?B = (case a_totalDepth data of Val v \<Rightarrow> Val v | _ \<Rightarrow> Null)"
    by (simp_all add: or_null_def split: jsval.splits)
  have note_field: "b_notes ?B = Some (case a_notes data of None \<Rightarrow> [] | Some n \<Rightarrow> n)"
    by (simp add: or_string_def split: option.splits)
  have rest: "b_id ?B = uuid" "b_name ?B = a_name data" "b_latitude ?B = a_latitude data"
      "b_longitude ?B = a_longitude data" "b_createdAt ?B = now" "b_updatedAt ?B = now"
    by simp_all
  from ret code status levels note_field rest ex
  show "\<exists>B. fst after = Returns (Some B)
              \<and> b_id B = uuid
              \<and> b_code B = (case a_code data of
                              None \<Rightarrow> generateBoreholeCode project
                            | Some c \<Rightarrow> if c = [] then generateBoreholeCode project else c)
              \<and> b_status B = (case a_status data of None \<Rightarrow> Planned | Some s \<Rightarrow> s)
              \<and> b_groundLevel B = (case a_groundLevel data of Val v \<Rightarrow> Val v | _ \<Rightarrow> Null)
              \<and> b_totalDepth B = (case a_totalDepth data of Val v \<Rightarrow> Val v | _ \<Rightarrow> Null)
              \<and> b_notes B = Some (case a_notes data of None \<Rightarrow> [] | Some n \<Rightarrow> n)
              \<and> b_name B = a_name data
              \<and> b_latitude B = a_latitude data \<and> b_longitude B = a_longitude data
              \<and> b_createdAt B = now \<and> b_updatedAt B = now
              \<and> (\<exists>i<length stored. stored ! i = project
                    \<and> fst (getProjects (snd after)) =
                        stored[i := project\<lparr>p_boreholes := p_boreholes project @ [B],
                                           p_updatedAt := now\<rparr>])"
    by (intro exI [of _ ?B] conjI)
next
  assume "\<forall>p\<in>set stored. p_id p \<noteq> projectId"
  then have "find (\<lambda>p. p_id p = projectId) (fst (getProjects m)) = None"
    by (simp add: find_None_iff stored_def)
  then have "after = (Returns None, snd (getProjects m))"
    unfolding after_def by (rule addBorehole_not_found)
  then show "fst after = Returns None \<and> item (snd after) = item m
           \<and> writes (snd after) = writes m"
    by (simp add: getProjects_frame)
qed

text \<open>
  The amended claim in the scenario of the specification: a borehole added without a
  code to a project that has BH01 gets BH02 and the defaults, one added with the
  explicit code BH01 keeps it although the project has that code already, and adding
  to an unknown project returns absent.
\<close>

theorem addBorehole_effect_witness:
  "fst (addBorehole ''p1''
         \<lparr>a_code = None, a_name = None, a_latitude = - 36.84, a_longitude = 174.76,
           a_groundLevel = Undefined, a_totalDepth = Undefined, a_status = None,
           a_notes = None\<rparr>
         ''b2'' ''2024-06-01T10:00:00.000Z''
         (exampleMedium [exampleProject ''p1'' [exampleBorehole ''b1'' ''BH01'']]))
   = Returns (Some \<lparr>b_id = ''b2'', b_code = ''BH02'', b_name = None,
                     b_latitude = - 36.84, b_longitude = 174.76,
                     b_groundLevel = Null, b_totalDepth = Null, b_status = Planned,
                     b_notes = Some [], b_createdAt = ''2024-06-01T10:00:00.000Z'',
                     b_updatedAt = ''2024-06-01T10:00:00.000Z''\<rparr>)
   \<and> map (map b_code \<circ> p_boreholes) (fst (getProjects (snd (addBorehole ''p1''
         \<lparr>a_code = Some ''BH01'', a_name = None, a_latitude = - 36.84, a_longitude = 174.76,
           a_groundLevel = Undefined, a_totalDepth = Undefined, a_status = None,
           a_notes = None\<rparr>
         ''b2'' ''2024-06-01T10:00:00.000Z''
         (exampleMedium [exampleProject ''p1'' [exampleBorehole ''b1'' ''BH01'']])))))
   = [[''BH01'', ''BH01'']]
   \<and> fst (addBorehole ''zz''
         \<lparr>a_code = None, a_name = None, a_latitude = - 36.84, a_longitude = 174.76,
           a_groundLevel = Undefined, a_totalDepth = Undefined, a_status = None,
           a_notes = None\<rparr>
         ''b2'' ''2024-06-01T10:00:00.000Z''
         (exampleMedium [exampleProject ''p1'' [exampleBorehole ''b1'' ''BH01'']]))
   = Returns None"
proof -
  let ?p = "exampleProject ''p1'' [exampleBorehole ''b1'' ''BH01'']"
  let ?m = "exampleMedium [?p]"
  let ?now = "''2024-06-01T10:00:00.000Z''"
  let ?d = "\<lparr>a_code = None, a_name = None, a_latitude = - 36.84, a_longitude = 174.76,
           a_groundLevel = Undefined, a_totalDepth = Undefined, a_status = None,
           a_notes = None\<rparr>"
  let ?d' = "\<lparr>a_code = Some ''BH01'', a_name = None, a_latitude = - 36.84, a_longitude = 174.76,
           a_groundLevel = Undefined, a_totalDepth = Undefined, a_status = None,
           a_notes = None\<rparr>"
  have stored: "fst (getProjects ?m) = [?p]"
    by (simp add: getProjects_Encoded exampleMedium_def JSON_stringify_def)
  have ok: "accessible ?m \<and> \<not> full ?m"
    by (simp add: exampleMedium_def)
  have found: "find (\<lambda>p. p_id p = ''p1'') (fst (getProjects ?m)) = Some ?p"
    by (simp add: stored example_fields)
  have gen: "generateBoreholeCode ?p = ''BH02''"
    by code_simp
  from addBorehole_effect [of "''p1''" ?m ?d "''b2''" ?now] found ok
  obtain B where B: "fst (addBorehole ''p1'' ?d ''b2'' ?now ?m) = Returns (Some B)"
    "b_id B = ''b2''" "b_code B = generateBoreholeCode ?p" "b_status B = Planned"
    "b_groundLevel B = Null" "b_totalDepth B = Null" "b_notes B = Some []"
    "b_name B = None" "b_latitude B = - 36.84" "b_longitude B = 174.76"
    "b_createdAt B = ?now" "b_updatedAt B = ?now"
    by auto
  then have first: "fst (addBorehole ''p1'' ?d ''b2'' ?now ?m)
   = Returns (Some \<lparr>b_id = ''b2'', b_code = ''BH02'', b_name = None,
                     b_latitude = - 36.84, b_longitude = 174.76,
                     b_groundLevel = Null, b_totalDepth = Null, b_status = Planned,
                     b_notes = Some [], b_createdAt = ?now, b_updatedAt = ?now\<rparr>)"
    by (simp add: gen)
  from addBorehole_effect [of "''p1''" ?m ?d' "''b2''" ?now] found ok
  obtain B' i where B': "b_code B' = ''BH01''" and i: "i < length (fst (getProjects ?m))"
    and after: "fst (getProjects (snd (addBorehole ''p1'' ?d' ''b2'' ?now ?m))) =
       (fst (getProjects ?m))[i := ?p\<lparr>p_boreholes := p_boreholes ?p @ [B'], p_updatedAt := ?now\<rparr>]"
    by auto
  from i have "i = 0" by (simp add: stored)
  with after B' have "map (map b_code \<circ> p_boreholes)
      (fst (getProjects (snd (addBorehole ''p1'' ?d' ''b2'' ?now ?m)))) = [[''BH01'', ''BH01'']]"
    by (simp add: stored example_fields)
  moreover have "\<forall>p\<in>set (fst (getProjects ?m)). p_id p \<noteq> ''zz''"
    by (simp add: stored example_fields)
  with addBorehole_effect [of "''zz''" ?m ?d "''b2''" ?now]
  have "fst (addBorehole ''zz'' ?d ''b2'' ?now ?m) = Returns None"
    by blast
  ultimately show ?thesis using first by blast
qed


lemma addBorehole_returns:
  assumes run: "addBorehole projectId data uuid now m = (Returns (Some B), m')"
  obtains project where "find (\<lambda>p. p_id p = projectId) (fst (getProjects m)) = Some project"
    and "accessible m" and "\<not> full m"
    and "b_code B = or_string (a_code data) (generateBoreholeCode project)"
    and "b_status B = or_value (a_status data) Planned"
    and "m' = (snd (getProjects m))
           \<lparr>item := Some (Encoded (mutateFirst (\<lambda>p. p_id p = projectId)
                     (\<lambda>p. p\<lparr>p_boreholes := p_boreholes p @ [B], p_updatedAt := now\<rparr>)
                     (fst (getProjects m)))),
            writes := Suc (writes m)\<rparr>"
proof (cases "find (\<lambda>p. p_id p = projectId) (fst (getProjects m))")
  case None
  from addBorehole_not_found [OF None, of data uuid now] run show thesis by simp
next
  case (Some project)
  have ok: "accessible m \<and> \<not> full m"
  proof (rule ccontr)
    assume "\<not> (accessible m \<and> \<not> full m)"
    then have "\<not> (accessible (snd (getProjects m)) \<and> \<not> full (snd (getProjects m)))"
      by (simp add: getProjects_frame)
    then have "fst (addBorehole projectId data uuid now m) = Throws (Error ''Failed to save data'')"
      by (simp add: addBorehole_found [OF Some] saveProjects_cases)
    with run show False by simp
  qed
  then have acc: "accessible m" and nf: "\<not> full m" by simp_all
  from run have "B = \<lparr>b_id = uuid,
      b_code = or_string (a_code data) (generateBoreholeCode project),
      b_name = a_name data, b_latitude = a_latitude data, b_longitude = a_longitude data,
      b_groundLevel = or_null (a_groundLevel data), b_totalDepth = or_null (a_totalDepth data),
      b_status = or_value (a_status data) Planned,
      b_notes = Some (or_string (a_notes data) []),
      b_createdAt = now, b_updatedAt = now\<rparr>
    \<and> m' = (snd (getProjects m))
           \<lparr>item := Some (Encoded (mutateFirst (\<lambda>p. p_id p = projectId)
                     (\<lambda>p. p\<lparr>p_boreholes := p_boreholes p @ [B], p_updatedAt := now\<rparr>)
                     (fst (getProjects m)))),
            writes := Suc (writes m)\<rparr>"
    by (auto simp: addBorehole_found [OF Some] saveProjects_after_read [OF acc nf])
  then have "b_code B = or_string (a_code data) (generateBoreholeCode project)"
    and "b_status B = or_value (a_status data) Planned"
    and "m' = (snd (getProjects m))
           \<lparr>item := Some (Encoded (mutateFirst (\<lambda>p. p_id p = projectId)
                     (\<lambda>p. p\<lparr>p_boreholes := p_boreholes p @ [B], p_updatedAt := now\<rparr>)
                     (fst (getProjects m)))),
            writes := Suc (writes m)\<rparr>"
    by (simp_all (no_asm_simp))
  with Some acc nf show thesis by (rule that)
qed

text \<open>
  Claim C10. addBorehole treats a supplied empty-string code exactly like an absent
  code: the two calls have the same result. Whenever addBorehole returns a borehole, its
  code is not empty; it is the code generated from the found project when the code
  supplied is absent or empty; its status is Planned when no status is supplied; and
  the borehole stored, the last one of the project with the given id that is first in
  the persisted collection, is the one returned.
\<close>

theorem addBorehole_code_never_empty:
  "addBorehole projectId (data\<lparr>a_code := Some []\<rparr>) uuid now m
     = addBorehole projectId (data\<lparr>a_code := None\<rparr>) uuid now m
   \<and> (\<forall>B m'. addBorehole projectId data uuid now m = (Returns (Some B), m')
        \<longrightarrow> b_code B \<noteq> []
          \<and> (a_code data = None \<or> a_code data = Some []
               \<longrightarrow> (\<exists>project. find (\<lambda>p. p_id p = projectId) (fst (getProjects m)) = Some project
                      \<and> b_code B = generateBoreholeCode project))
          \<and> (a_status data = None \<longrightarrow> b_status B = Planned)
          \<and> (\<exists>project. find (\<lambda>p. p_id p = projectId) (fst (getProjects m')) = Some project
                \<and> p_boreholes project \<noteq> [] \<and> last (p_boreholes project) = B))"
proof (rule conjI)
  show "addBorehole projectId (data\<lparr>a_code := Some []\<rparr>) uuid now m
     = addBorehole projectId (data\<lparr>a_code := None\<rparr>) uuid now m"
    by (simp add: addBorehole_def or_string_def Let_def split: prod.splits option.splits)
next
  show "\<forall>B m'. addBorehole projectId data uuid now m = (Returns (Some B), m')
        \<longrightarrow> b_code B \<noteq> []
          \<and> (a_code data = None \<or> a_code data = Some []
               \<longrightarrow> (\<exists>project. find (\<lambda>p. p_id p = projectId) (fst (getProjects m)) = Some project
                      \<and> b_code B = generateBoreholeCode project))
          \<and> (a_status data = None \<longrightarrow> b_status B = Planned)
          \<and> (\<exists>project. find (\<lambda>p. p_id p = projectId) (fst (getProjects m')) = Some project
                \<and> p_boreholes project \<noteq> [] \<and> last (p_boreholes project) = B)"
  proof (intro allI impI)
    fix B m'
    assume run: "addBorehole projectId data uuid now m = (Returns (Some B), m')"
    let ?f = "\<lambda>p. p\<lparr>p_boreholes := p_boreholes p @ [B], p_updatedAt := now\<rparr>"
    from run obtain project
      where found: "find (\<lambda>p. p_id p = projectId) (fst (getProjects m)) = Some project"
        and acc: "accessible m"
        and code: "b_code B = or_string (a_code data) (generateBoreholeCode project)"
        and status: "b_status B = or_value (a_status data) Planned"
        and m': "m' = (snd (getProjects m))
           \<lparr>item := Some (Encoded (mutateFirst (\<lambda>p. p_id p = projectId) ?f
                     (fst (getProjects m)))),
            writes := Suc (writes m)\<rparr>"
      by (rule addBorehole_returns)
    from code have nonempty: "b_code B \<noteq> []"
      by (simp add: or_string_def generateBoreholeCode_not_empty split: option.splits)
    from code found have generated: "a_code data = None \<or> a_code data = Some []
               \<longrightarrow> (\<exists>project. find (\<lambda>p. p_id p = projectId) (fst (getProjects m)) = Some project
                      \<and> b_code B = generateBoreholeCode project)"
      by (auto simp: or_string_def)
    from status have planned: "a_status data = None \<longrightarrow> b_status B = Planned"
      by (simp add: or_value_def)
    have read: "fst (getProjects m') = mutateFirst (\<lambda>p. p_id p = projectId) ?f (fst (getProjects m))"
      unfolding m' by (rule getProjects_after_write [OF acc])
    from found have "find (\<lambda>p. p_id p = projectId) (fst (getProjects m')) = Some (?f project)"
      unfolding read by (rule find_mutateFirst) simp
    then have stored: "\<exists>project. find (\<lambda>p. p_id p = projectId) (fst (getProjects m')) = Some project
                \<and> p_boreholes project \<noteq> [] \<and> last (p_boreholes project) = B"
      by simp
    from nonempty generated planned stored
    show "b_code B \<noteq> []
          \<and> (a_code data = None \<or> a_code data = Some []
               \<longrightarrow> (\<exists>project. find (\<lambda>p. p_id p = projectId) (fst (getProjects m)) = Some project
                      \<and> b_code B = generateBoreholeCode project))
          \<and> (a_status data = None \<longrightarrow> b_status B = Planned)
          \<and> (\<exists>project. find (\<lambda>p. p_id p = projectId) (fst (getProjects m')) = Some project
                \<and> p_boreholes project \<noteq> [] \<and> last (p_boreholes project) = B)"
      by (intro conjI)
  qed
qed


text \<open>
  The claim at a project without boreholes: the empty code gives the same call as no
  code, and the borehole returned carries the code BH01 and the status Planned.
\<close>

theorem addBorehole_code_never_empty_witness:
  "addBorehole ''p1''
      \<lparr>a_code = Some [], a_name = None, a_latitude = - 36.84, a_longitude = 174.76,
        a_groundLevel = Undefined, a_totalDepth = Undefined, a_status = None,
        a_notes = None\<rparr>
      ''b1'' ''2024-06-01T10:00:00.000Z'' (exampleMedium [exampleProject ''p1'' []])
   = addBorehole ''p1''
      \<lparr>a_code = None, a_name = None, a_latitude = - 36.84, a_longitude = 174.76,
        a_groundLevel = Undefined, a_totalDepth = Undefined, a_status = None,
        a_notes = None\<rparr>
      ''b1'' ''2024-06-01T10:00:00.000Z'' (exampleMedium [exampleProject ''p1'' []])
   \<and> (\<exists>B. fst (addBorehole ''p1''
      \<lparr>a_code = Some [], a_name = None, a_latitude = - 36.84, a_longitude = 174.76,
        a_groundLevel = Undefined, a_totalDepth = Undefined, a_status = None,
        a_notes = None\<rparr>
      ''b1'' ''2024-06-01T10:00:00.000Z'' (exampleMedium [exampleProject ''p1'' []]))
        = Returns (Some B)
      \<and> b_code B = ''BH01'' \<and> b_code B \<noteq> [] \<and> b_status B = Planned)"
proof -
  let ?d = "\<lparr>a_code = Some [], a_name = None, a_latitude = - 36.84, a_longitude = 174.76,
        a_groundLevel = Undefined, a_totalDepth = Undefined, a_status = None,
        a_notes = None\<rparr>"
  let ?m = "exampleMedium [exampleProject ''p1'' []]"
  let ?now = "''2024-06-01T10:00:00.000Z''"
  note claim = addBorehole_code_never_empty [of "''p1''" ?d "''b1''" ?now ?m]
  have gen: "generateBoreholeCode (exampleProject ''p1'' []) = ''BH01''"
    by (rule generateBoreholeCode_no_boreholes) (simp add: example_fields)
  have stored: "fst (getProjects ?m) = [exampleProject ''p1'' []]"
    by (simp add: getProjects_Encoded exampleMedium_def JSON_stringify_def)
  have "\<exists>B. fst (addBorehole ''p1'' ?d ''b1'' ?now ?m) = Returns (Some B)"
    by (simp add: addBorehole_def getProjects_Encoded saveProjects_cases example_fields
        exampleMedium_def JSON_stringify_def Let_def)
  then obtain B m' where run: "addBorehole ''p1'' ?d ''b1'' ?now ?m = (Returns (Some B), m')"
    by (cases "addBorehole ''p1'' ?d ''b1'' ?now ?m") auto
  with claim have "b_code B \<noteq> []" and "b_status B = Planned"
    and "\<exists>project. find (\<lambda>p. p_id p = ''p1'') (fst (getProjects ?m)) = Some project
                      \<and> b_code B = generateBoreholeCode project"
    by simp_all
  moreover from this(3) have "b_code B = ''BH01''"
    by (auto simp: stored example_fields gen)
  moreover from claim have "addBorehole ''p1'' ?d ''b1'' ?now ?m
    = addBorehole ''p1'' (?d\<lparr>a_code := None\<rparr>) ''b1'' ?now ?m"
    by simp
  ultimately show ?thesis
    using run by auto
qed

subsection \<open>updateBorehole\<close>

lemma updateBorehole_found:
  assumes "find (\<lambda>p. p_id p = projectId) (fst (getProjects m)) = Some project"
    and "findIndex (\<lambda>b. b_id b = boreholeId) (p_boreholes project) = Some j"
  shows "updateBorehole projectId boreholeId updates now1 now2 m =
     (case saveProjects
        (mutateFirst (\<lambda>p. p_id p = projectId)
           (\<lambda>p. p\<lparr>p_boreholes := (p_boreholes project)
                       [j := (spreadBorehole (p_boreholes project ! j) updates)
                               \<lparr>b_updatedAt := now1\<rparr>],
                    p_updatedAt := now2\<rparr>)
           (fst (getProjects m)))
        (snd (getProjects m)) of
        (Throws e, m2) \<Rightarrow> (Throws e, m2)
      | (Returns u, m2) \<Rightarrow>
          (Returns (Some ((spreadBorehole (p_boreholes project ! j) updates)
                            \<lparr>b_updatedAt := now1\<rparr>)), m2))"
proof -
  from findIndex_Some [OF assms(2)] have "j < length (p_boreholes project)" by simp
  with assms show ?thesis
    by (cases "getProjects m")
      (simp add: updateBorehole_def Let_def split: prod.splits outcome.splits)
qed

lemma updateBorehole_not_found:
  assumes "find (\<lambda>p. p_id p = projectId) (fst (getProjects m)) = None
      \<or> (\<exists>project. find (\<lambda>p. p_id p = projectId) (fst (getProjects m)) = Some project
            \<and> findIndex (\<lambda>b. b_id b = boreholeId) (p_boreholes project) = None)"
  shows "updateBorehole projectId boreholeId updates now1 now2 m
       = (Returns None, snd (getProjects m))"
  using assms by (cases "getProjects m") (auto simp: updateBorehole_def)

text \<open>
  Claim C5 fails as stated: the new updatedAt is the clock reading of the call, which is
  not always later than the previous stamp. Here the borehole was stamped at
  09:00:00.000 and the update runs within the same millisecond: the returned record has
  the same updatedAt as before, not a strictly greater one.
\<close>

theorem updateBorehole_stamp_counterexample:
  "fst (updateBorehole ''p1'' ''a'' (emptyBoreholeUpdates\<lparr>ub_status := Some Completed\<rparr>)
         ''2024-05-01T09:00:00.000Z'' ''2024-05-01T09:00:00.000Z''
         (exampleMedium [exampleProject ''p1'' [exampleBorehole ''a'' ''BH01'']]))
     = Returns (Some ((exampleBorehole ''a'' ''BH01'')\<lparr>b_status := Completed\<rparr>))
   \<and> b_updatedAt ((exampleBorehole ''a'' ''BH01'')\<lparr>b_status := Completed\<rparr>)
     = b_updatedAt (exampleBorehole ''a'' ''BH01'')
   \<and> \<not> b_updatedAt (exampleBorehole ''a'' ''BH01'')
       < b_updatedAt ((exampleBorehole ''a'' ''BH01'')\<lparr>b_status := Completed\<rparr>)"
  by (simp add: updateBorehole_def spreadBorehole_def store_eval)

text \<open>
  Claim C5, amended. For every existing borehole (the first borehole with the given id in
  the first stored project with the given project id), on a medium that takes the write,
  updateBorehole (pid, bid, {status: Completed}) returns the record with status
  Completed and all of id, code, name, latitude, longitude, groundLevel, totalDepth,
  notes and createdAt unchanged; its updatedAt is the clock reading of the call, which
  is strictly greater than the previous updatedAt exactly when that reading is later
  than the previous stamp. The owning project's updatedAt is stamped with the second
  clock reading, and the collection with that one borehole replaced is persisted.
\<close>

theorem updateBorehole_status_effect:
  fixes m :: medium and projectId boreholeId now1 now2 :: string
  defines "stored \<equiv> fst (getProjects m)"
    and "after \<equiv> updateBorehole projectId boreholeId
                    (emptyBoreholeUpdates\<lparr>ub_status := Some Completed\<rparr>) now1 now2 m"
  shows
   "\<forall>project j. find (\<lambda>p. p_id p = projectId) stored = Some project
        \<and> findIndex (\<lambda>b. b_id b = boreholeId) (p_boreholes project) = Some j
        \<and> accessible m \<and> \<not> full m
      \<longrightarrow> (\<exists>B'. fst after = Returns (Some B')
             \<and> B' = (p_boreholes project ! j)\<lparr>b_status := Completed, b_updatedAt := now1\<rparr>
             \<and> b_id B' = b_id (p_boreholes project ! j)
             \<and> b_code B' = b_code (p_boreholes project ! j)
             \<and> b_name B' = b_name (p_boreholes project ! j)
             \<and> b_latitude B' = b_latitude (p_boreholes project ! j)
             \<and> b_longitude B' = b_longitude (p_boreholes project ! j)
             \<and> b_groundLevel B' = b_groundLevel (p_boreholes project ! j)
             \<and> b_totalDepth B' = b_totalDepth (p_boreholes project ! j)
             \<and> b_notes B' = b_notes (p_boreholes project ! j)
             \<and> b_createdAt B' = b_createdAt (p_boreholes project ! j)
             \<and> b_status B' = Completed
             \<and> b_updatedAt B' = now1
             \<and> (b_updatedAt (p_boreholes project ! j) < b_updatedAt B'
                   \<longleftrightarrow> b_updatedAt (p_boreholes project ! j) < now1)
             \<and> (\<exists>i<length stored. stored ! i = project
                   \<and> fst (getProjects (snd after)) =
                       stored[i := project\<lparr>p_boreholes := (p_boreholes project)[j := B'],
                                          p_updatedAt := now2\<rparr>]))"
proof (intro allI impI)
  fix project j
  assume h: "find (\<lambda>p. p_id p = projectId) stored = Some project
        \<and> findIndex (\<lambda>b. b_id b = boreholeId) (p_boreholes project) = Some j
        \<and> accessible m \<and> \<not> full m"
  let ?old = "p_boreholes project ! j"
  let ?u = "emptyBoreholeUpdates\<lparr>ub_status := Some Completed\<rparr>"
  let ?B = "?old\<lparr>b_status := Completed, b_updatedAt := now1\<rparr>"
  let ?f = "\<lambda>p. p\<lparr>p_boreholes := (p_boreholes project)[j := ?B], p_updatedAt := now2\<rparr>"
  let ?ps = "mutateFirst (\<lambda>p. p_id p = projectId) ?f stored"
  from h have found: "find (\<lambda>p. p_id p = projectId) (fst (getProjects m)) = Some project"
    and idx: "findIndex (\<lambda>b. b_id b = boreholeId) (p_boreholes project) = Some j"
    and acc: "accessible m" and nf: "\<not> full m"
    by (simp_all add: stored_def)
  have merged: "(spreadBorehole ?old ?u)\<lparr>b_updatedAt := now1\<rparr> = ?B"
    by (simp add: spreadBorehole_def spread_def emptyBoreholeUpdates_def)
  have after: "after = (Returns (Some ?B),
      (snd (getProjects m))\<lparr>item := Some (Encoded ?ps), writes := Suc (writes m)\<rparr>)"
    unfolding after_def stored_def
    by (simp add: updateBorehole_found [OF found idx] merged saveProjects_after_read [OF acc nf])
  have ret: "fst after = Returns (Some ?B)"
    unfolding after by simp
  from found obtain i where i: "i < length stored" and si: "stored ! i = project"
      and mf: "?ps = stored[i := ?f project]"
    unfolding stored_def by (rule find_Some_index)
  have "fst (getProjects (snd after)) = ?ps"
    unfolding after by (simp add: getProjects_after_write [OF acc])
  then have "fst (getProjects (snd after)) = stored[i := ?f project]"
    unfolding mf .
  with i si have ex: "\<exists>i<length stored. stored ! i = project
      \<and> fst (getProjects (snd after)) =
          stored[i := project\<lparr>p_boreholes := (p_boreholes project)[j := ?B],
                             p_updatedAt := now2\<rparr>]"
    by blast
  have fields: "b_id ?B = b_id ?old" "b_code ?B = b_code ?old" "b_name ?B = b_name ?old"
      "b_latitude ?B = b_latitude ?old" "b_longitude ?B = b_longitude ?old"
      "b_groundLevel ?B = b_groundLevel ?old" "b_totalDepth ?B = b_totalDepth ?old"
      "b_notes ?B = b_notes ?old" "b_createdAt ?B = b_createdAt ?old"
      "b_status ?B = Completed" "b_updatedAt ?B = now1"
      "b_updatedAt ?old < b_updatedAt ?B \<longleftrightarrow> b_updatedAt ?old < now1"
    by simp_all
  from ret fields ex
  show "\<exists>B'. fst after = Returns (Some B')
             \<and> B' = ?old\<lparr>b_status := Completed, b_updatedAt := now1\<rparr>
             \<and> b_id B' = b_id ?old
             \<and> b_code B' = b_code ?old
             \<and> b_name B' = b_name ?old
             \<and> b_latitude B' = b_latitude ?old
             \<and> b_longitude B' = b_longitude ?old
             \<and> b_groundLevel B' = b_groundLevel ?old
             \<and> b_totalDepth B' = b_totalDepth ?old
             \<and> b_notes B' = b_notes ?old
             \<and> b_createdAt B' = b_createdAt ?old
             \<and> b_status B' = Completed
             \<and> b_updatedAt B' = now1
             \<and> (b_updatedAt ?old < b_updatedAt B' \<longleftrightarrow> b_updatedAt ?old < now1)
             \<and> (\<exists>i<length stored. stored ! i = project
                   \<and> fst (getProjects (snd after)) =
                       stored[i := project\<lparr>p_boreholes := (p_boreholes project)[j := B'],
                                          p_updatedAt := now2\<rparr>])"
    by (intro exI [of _ ?B] conjI refl)
qed

text \<open>
  The amended claim at the borehole \<open>a\<close> of project \<open>p1\<close>, updated an hour after its
  last stamp: only status and updatedAt change, and the new stamp is later.
\<close>

theorem updateBorehole_status_effect_witness:
  "fst (updateBorehole ''p1'' ''a'' (emptyBoreholeUpdates\<lparr>ub_status := Some Completed\<rparr>)
         ''2024-05-01T10:00:00.000Z'' ''2024-05-01T10:00:00.001Z''
         (exampleMedium [exampleProject ''p1'' [exampleBorehole ''a'' ''BH01'']]))
     = Returns (Some ((exampleBorehole ''a'' ''BH01'')
                  \<lparr>b_status := Completed, b_updatedAt := ''2024-05-01T10:00:00.000Z''\<rparr>))
   \<and> b_updatedAt (exampleBorehole ''a'' ''BH01'') < ''2024-05-01T10:00:00.000Z''
   \<and> map p_updatedAt (fst (getProjects (snd (updateBorehole ''p1'' ''a''
         (emptyBoreholeUpdates\<lparr>ub_status := Some Completed\<rparr>)
         ''2024-05-01T10:00:00.000Z'' ''2024-05-01T10:00:00.001Z''
         (exampleMedium [exampleProject ''p1'' [exampleBorehole ''a'' ''BH01'']])))))
     = [''2024-05-01T10:00:00.001Z'']"
proof -
  let ?b = "exampleBorehole ''a'' ''BH01''"
  let ?p = "exampleProject ''p1'' [?b]"
  let ?m = "exampleMedium [?p]"
  let ?u = "emptyBoreholeUpdates\<lparr>ub_status := Some Completed\<rparr>"
  let ?now1 = "''2024-05-01T10:00:00.000Z''"
  let ?now2 = "''2024-05-01T10:00:00.001Z''"
  have stored: "fst (getProjects ?m) = [?p]"
    by (simp add: getProjects_Encoded exampleMedium_def JSON_stringify_def)
  have ok: "accessible ?m \<and> \<not> full ?m"
    by (simp add: exampleMedium_def)
  have found: "find (\<lambda>p. p_id p = ''p1'') (fst (getProjects ?m)) = Some ?p"
    by (simp add: stored example_fields)
  have idx: "findIndex (\<lambda>b. b_id b = ''a'') (p_boreholes ?p) = Some 0"
    by (simp add: example_fields)
  have nth: "p_boreholes ?p ! 0 = ?b"
    by (simp add: example_fields)
  from updateBorehole_status_effect [of "''p1''" ?m "''a''" ?now1 ?now2] found idx ok
  obtain B' i where ret: "fst (updateBorehole ''p1'' ''a'' ?u ?now1 ?now2 ?m) = Returns (Some B')"
    and B': "B' = (p_boreholes ?p ! 0)\<lparr>b_status := Completed, b_updatedAt := ?now1\<rparr>"
    and i: "i < length (fst (getProjects ?m))"
    and after: "fst (getProjects (snd (updateBorehole ''p1'' ''a'' ?u ?now1 ?now2 ?m))) =
        (fst (getProjects ?m))[i := ?p\<lparr>p_boreholes := (p_boreholes ?p)[0 := B'],
                                        p_updatedAt := ?now2\<rparr>]"
    by blast
  from i have "i = 0" by (simp add: stored)
  with after have "map p_updatedAt
      (fst (getProjects (snd (updateBorehole ''p1'' ''a'' ?u ?now1 ?now2 ?m)))) = [?now2]"
    by (simp add: stored)
  moreover from ret B' nth
  have "fst (updateBorehole ''p1'' ''a'' ?u ?now1 ?now2 ?m)
     = Returns (Some (?b\<lparr>b_status := Completed, b_updatedAt := ?now1\<rparr>))"
    by simp
  moreover have "b_updatedAt ?b < ?now1"
    by (simp add: exampleBorehole_def)
  ultimately show ?thesis by blast
qed

section \<open>Properties of the facade\<close>

lemma updateBorehole_returns:
  assumes run: "updateBorehole projectId boreholeId updates now1 now2 m
                  = (Returns (Some updated), m1)"
  obtains project j
  where "find (\<lambda>p. p_id p = projectId) (fst (getProjects m)) = Some project"
    and "findIndex (\<lambda>b. b_id b = boreholeId) (p_boreholes project) = Some j"
    and "accessible m"
    and "updated = (spreadBorehole (p_boreholes project ! j) updates)\<lparr>b_updatedAt := now1\<rparr>"
    and "fst (getProjects m1) =
           mutateFirst (\<lambda>p. p_id p = projectId)
             (\<lambda>p. p\<lparr>p_boreholes := (p_boreholes project)[j := updated], p_updatedAt := now2\<rparr>)
             (fst (getProjects m))"
proof (cases "find (\<lambda>p. p_id p = projectId) (fst (getProjects m))")
  case None
  then have "updateBorehole projectId boreholeId updates now1 now2 m
       = (Returns None, snd (getProjects m))"
    by (intro updateBorehole_not_found) simp
  with run show thesis by simp
next
  case (Some project)
  show thesis
  proof (cases "findIndex (\<lambda>b. b_id b = boreholeId) (p_boreholes project)")
    case None
    with Some have "updateBorehole projectId boreholeId updates now1 now2 m
       = (Returns None, snd (getProjects m))"
      by (intro updateBorehole_not_found) simp
    with run show thesis by simp
  next
    case (Some j)
    note idx = this
    note found = \<open>find (\<lambda>p. p_id p = projectId) (fst (getProjects m)) = Some project\<close>
    let ?B = "(spreadBorehole (p_boreholes project ! j) updates)\<lparr>b_updatedAt := now1\<rparr>"
    let ?ps = "mutateFirst (\<lambda>p. p_id p = projectId)
             (\<lambda>p. p\<lparr>p_boreholes := (p_boreholes project)[j := ?B], p_updatedAt := now2\<rparr>)
             (fst (getProjects m))"
    have ok: "accessible m \<and> \<not> full m"
    proof (rule ccontr)
      assume "\<not> (accessible m \<and> \<not> full m)"
      then have "\<not> (accessible (snd (getProjects m)) \<and> \<not> full (snd (getProjects m)))"
        by (simp add: getProjects_frame)
      then have "fst (updateBorehole projectId boreholeId updates now1 now2 m)
          = Throws (Error ''Failed to save data'')"
        by (simp add: updateBorehole_found [OF found idx] saveProjects_cases)
      with run show False by simp
    qed
    then have acc: "accessible m" and nf: "\<not> full m" by simp_all
    have "updateBorehole projectId boreholeId updates now1 now2 m
        = (Returns (Some ?B),
           (snd (getProjects m))\<lparr>item := Some (Encoded ?ps), writes := Suc (writes m)\<rparr>)"
      by (simp add: updateBorehole_found [OF found idx] saveProjects_after_read [OF acc nf])
    with run have both: "(Returns (Some updated), m1)
        = (Returns (Some ?B),
           (snd (getProjects m))\<lparr>item := Some (Encoded ?ps), writes := Suc (writes m)\<rparr>)"
      by (rule trans [OF sym])
    then have upd: "updated = ?B" by blast
    from both
    have m1: "m1 = (snd (getProjects m))\<lparr>item := Some (Encoded ?ps), writes := Suc (writes m)\<rparr>"
      by blast
    note upd
    moreover have "fst (getProjects m1) = ?ps"
      unfolding m1 by (rule getProjects_after_write [OF acc])
    ultimately show thesis
      using found idx acc by (intro that [of project j]) simp_all
  qed
qed

lemma getProject_find: "fst (getProject projectId m) = find (\<lambda>p. p_id p = projectId) (fst (getProjects m))"
  by (cases "getProjects m") (simp add: getProject_def)

lemma loadProject_selection:
  "selectedBorehole (fst (loadProject projectId s)) = None"
  "currentProject (fst (loadProject projectId s)) = fst (getProject projectId (snd s))"
  by (cases s; cases "getProject projectId (snd s)"; simp add: loadProject_def)+

lemma deleteBorehole_throws_item:
  assumes "deleteBorehole projectId boreholeId now m = (Throws e, m1)"
  shows "item m1 = item m"
proof -
  have "item (snd (getProjects m)) = item m" by (rule getProjects_frame)
  with assms show ?thesis
    by (cases "getProjects m")
      (auto simp: deleteBorehole_def Let_def saveProjects_cases console_error_def
        split: option.splits if_splits)
qed

text \<open>
  Claim C8. After a successful facade updateBorehole (a current project is loaded and
  the store returns the merged record) whose boreholeId is the id of the selected
  borehole, selectedBorehole holds the record the store has just merged and stamped,
  which is also a borehole of the reloaded current project. After a facade
  deleteBorehole that deleted the borehole, selectedBorehole is absent: this holds
  whenever the store's deleteBorehole returns under the loaded current project, and
  whenever the call has changed the stored item. The only calls that leave a selection
  in place delete nothing: with no current project loaded deleteBorehole returns at its
  guard and changes nothing, and when the store raises, the selection is left as it was
  and the error slot is set.
\<close>

theorem facade_selection_after_mutation:
  fixes f :: facade and m :: medium
  shows
   "(\<forall>cp sel updated m1.
        currentProject f = Some cp \<and> selectedBorehole f = Some sel \<and> b_id sel = boreholeId
        \<and> updateBorehole (p_id cp) boreholeId updates now1 now2 m = (Returns (Some updated), m1)
      \<longrightarrow> selectedBorehole (fst (facade_updateBorehole boreholeId updates now1 now2 (f, m)))
            = Some updated
          \<and> b_updatedAt updated = now1
          \<and> (\<exists>cp'. currentProject (fst (facade_updateBorehole boreholeId updates now1 now2 (f, m)))
                     = Some cp'
                  \<and> updated \<in> set (p_boreholes cp')))
    \<and> (\<forall>cp removed m1.
        currentProject f = Some cp
        \<and> deleteBorehole (p_id cp) boreholeId now m = (Returns removed, m1)
      \<longrightarrow> selectedBorehole (fst (facade_deleteBorehole boreholeId now (f, m))) = None)
    \<and> (item (snd (facade_deleteBorehole boreholeId now (f, m))) \<noteq> item m
      \<longrightarrow> selectedBorehole (fst (facade_deleteBorehole boreholeId now (f, m))) = None)
    \<and> (currentProject f = None \<longrightarrow> facade_deleteBorehole boreholeId now (f, m) = (f, m))
    \<and> (\<forall>cp e m1.
        currentProject f = Some cp
        \<and> deleteBorehole (p_id cp) boreholeId now m = (Throws e, m1)
      \<longrightarrow> selectedBorehole (fst (facade_deleteBorehole boreholeId now (f, m)))
            = selectedBorehole f
          \<and> error_state (fst (facade_deleteBorehole boreholeId now (f, m)))
            = Some ''Failed to delete borehole'')"
proof (intro conjI)
  show "\<forall>cp sel updated m1.
        currentProject f = Some cp \<and> selectedBorehole f = Some sel \<and> b_id sel = boreholeId
        \<and> updateBorehole (p_id cp) boreholeId updates now1 now2 m = (Returns (Some updated), m1)
      \<longrightarrow> selectedBorehole (fst (facade_updateBorehole boreholeId updates now1 now2 (f, m)))
            = Some updated
          \<and> b_updatedAt updated = now1
          \<and> (\<exists>cp'. currentProject (fst (facade_updateBorehole boreholeId updates now1 now2 (f, m)))
                     = Some cp'
                  \<and> updated \<in> set (p_boreholes cp'))"
  proof (intro allI impI)
    fix cp sel updated m1
    assume h: "currentProject f = Some cp \<and> selectedBorehole f = Some sel \<and> b_id sel = boreholeId
        \<and> updateBorehole (p_id cp) boreholeId updates now1 now2 m = (Returns (Some updated), m1)"
    let ?after = "facade_updateBorehole boreholeId updates now1 now2 (f, m)"
    from h have run: "updateBorehole (p_id cp) boreholeId updates now1 now2 m
        = (Returns (Some updated), m1)" by simp
    from h have after: "?after =
        ((fst (loadProject (p_id cp) (f, m1)))\<lparr>selectedBorehole := Some updated\<rparr>,
         snd (loadProject (p_id cp) (f, m1)))"
      by (cases "loadProject (p_id cp) (f, m1)") (simp add: facade_updateBorehole_def)
    have sel: "selectedBorehole (fst ?after) = Some updated"
      unfolding after by simp
    from run obtain project j
      where found: "find (\<lambda>p. p_id p = p_id cp) (fst (getProjects m)) = Some project"
        and idx: "findIndex (\<lambda>b. b_id b = boreholeId) (p_boreholes project) = Some j"
        and upd: "updated = (spreadBorehole (p_boreholes project ! j) updates)
                              \<lparr>b_updatedAt := now1\<rparr>"
        and read: "fst (getProjects m1) =
           mutateFirst (\<lambda>p. p_id p = p_id cp)
             (\<lambda>p. p\<lparr>p_boreholes := (p_boreholes project)[j := updated], p_updatedAt := now2\<rparr>)
             (fst (getProjects m))"
      by (rule updateBorehole_returns)
    from upd have stamp: "b_updatedAt updated = now1" by simp
    let ?cp' = "project\<lparr>p_boreholes := (p_boreholes project)[j := updated], p_updatedAt := now2\<rparr>"
    from found have "find (\<lambda>p. p_id p = p_id cp) (fst (getProjects m1)) = Some ?cp'"
      unfolding read by (rule find_mutateFirst) simp
    then have "currentProject (fst ?after) = Some ?cp'"
      unfolding after by (simp add: loadProject_selection getProject_find)
    moreover from findIndex_Some [OF idx] have "updated \<in> set (p_boreholes ?cp')"
      by (simp add: set_update_memI)
    ultimately have "\<exists>cp'. currentProject (fst ?after) = Some cp' \<and> updated \<in> set (p_boreholes cp')"
      by blast
    with sel stamp
    show "selectedBorehole (fst ?after) = Some updated \<and> b_updatedAt updated = now1
          \<and> (\<exists>cp'. currentProject (fst ?after) = Some cp' \<and> updated \<in> set (p_boreholes cp'))"
      by blast
  qed
next
  show "\<forall>cp removed m1.
        currentProject f = Some cp
        \<and> deleteBorehole (p_id cp) boreholeId now m = (Returns removed, m1)
      \<longrightarrow> selectedBorehole (fst (facade_deleteBorehole boreholeId now (f, m))) = None"
  proof (intro allI impI)
    fix cp removed m1
    assume "currentProject f = Some cp
        \<and> deleteBorehole (p_id cp) boreholeId now m = (Returns removed, m1)"
    then show "selectedBorehole (fst (facade_deleteBorehole boreholeId now (f, m))) = None"
      by (cases "loadProject (p_id cp) (f, m1)")
        (auto simp: facade_deleteBorehole_def loadProject_def split: prod.splits)
  qed
next
  show "item (snd (facade_deleteBorehole boreholeId now (f, m))) \<noteq> item m
      \<longrightarrow> selectedBorehole (fst (facade_deleteBorehole boreholeId now (f, m))) = None"
  proof
    assume changed: "item (snd (facade_deleteBorehole boreholeId now (f, m))) \<noteq> item m"
    show "selectedBorehole (fst (facade_deleteBorehole boreholeId now (f, m))) = None"
    proof (cases "currentProject f")
      case None
      with changed show ?thesis by (simp add: facade_deleteBorehole_def)
    next
      case (Some cp)
      obtain r m1 where run: "deleteBorehole (p_id cp) boreholeId now m = (r, m1)"
        by (cases "deleteBorehole (p_id cp) boreholeId now m")
      show ?thesis
      proof (cases r)
        case (Throws e)
        with run have "item m1 = item m" by (simp add: deleteBorehole_throws_item)
        with changed Some run Throws show ?thesis
          by (simp add: facade_deleteBorehole_def console_error_def)
      next
        case (Returns removed)
        with Some run show ?thesis
          by (cases "loadProject (p_id cp) (f, m1)")
            (auto simp: facade_deleteBorehole_def loadProject_def split: prod.splits)
      qed
    qed
  qed
next
  show "currentProject f = None \<longrightarrow> facade_deleteBorehole boreholeId now (f, m) = (f, m)"
    by (simp add: facade_deleteBorehole_def)
next
  show "\<forall>cp e m1.
        currentProject f = Some cp
        \<and> deleteBorehole (p_id cp) boreholeId now m = (Throws e, m1)
      \<longrightarrow> selectedBorehole (fst (facade_deleteBorehole boreholeId now (f, m)))
            = selectedBorehole f
          \<and> error_state (fst (facade_deleteBorehole boreholeId now (f, m)))
            = Some ''Failed to delete borehole''"
    by (simp add: facade_deleteBorehole_def)
qed


text \<open>
  The claim after loading project \<open>p1\<close> and selecting its borehole \<open>a\<close>:
  updating \<open>a\<close> leaves the merged record selected, deleting \<open>a\<close> changes the stored
  item and clears the selection.
  On the initial state deleteBorehole changes nothing, and on a full medium, where the
  store raises, the selection stays.
\<close>

theorem facade_selection_after_mutation_witness:
  "selectedBorehole (fst (facade_updateBorehole ''a''
       (emptyBoreholeUpdates\<lparr>ub_status := Some Completed\<rparr>)
       ''2024-05-01T10:00:00.000Z'' ''2024-05-01T10:00:00.001Z''
       (selectBorehole (Some (exampleBorehole ''a'' ''BH01''))
          (loadProject ''p1''
             (initialFacade,
              exampleMedium [exampleProject ''p1'' [exampleBorehole ''a'' ''BH01'']])))))
     = Some ((exampleBorehole ''a'' ''BH01'')
               \<lparr>b_status := Completed, b_updatedAt := ''2024-05-01T10:00:00.000Z''\<rparr>)
   \<and> selectedBorehole (fst (facade_deleteBorehole ''a'' ''2024-05-01T10:00:00.000Z''
       (selectBorehole (Some (exampleBorehole ''a'' ''BH01''))
          (loadProject ''p1''
             (initialFacade,
              exampleMedium [exampleProject ''p1'' [exampleBorehole ''a'' ''BH01'']])))))
     = None
   \<and> item (snd (facade_deleteBorehole ''a'' ''2024-05-01T10:00:00.000Z''
       (selectBorehole (Some (exampleBorehole ''a'' ''BH01''))
          (loadProject ''p1''
             (initialFacade,
              exampleMedium [exampleProject ''p1'' [exampleBorehole ''a'' ''BH01'']])))))
     \<noteq> item (exampleMedium [exampleProject ''p1'' [exampleBorehole ''a'' ''BH01'']])
   \<and> facade_deleteBorehole ''a'' ''2024-05-01T10:00:00.000Z''
       (initialFacade, exampleMedium [exampleProject ''p1'' [exampleBorehole ''a'' ''BH01'']])
     = (initialFacade, exampleMedium [exampleProject ''p1'' [exampleBorehole ''a'' ''BH01'']])
   \<and> selectedBorehole (fst (facade_deleteBorehole ''a'' ''2024-05-01T10:00:00.000Z''
       (selectBorehole (Some (exampleBorehole ''a'' ''BH01''))
          (loadProject ''p1''
             (initialFacade,
              (exampleMedium [exampleProject ''p1'' [exampleBorehole ''a'' ''BH01'']])
                \<lparr>full := True\<rparr>)))))
     = Some (exampleBorehole ''a'' ''BH01'')"
proof -
  let ?a = "exampleBorehole ''a'' ''BH01''"
  let ?p = "exampleProject ''p1'' [?a]"
  let ?m = "exampleMedium [?p]"
  let ?u = "emptyBoreholeUpdates\<lparr>ub_status := Some Completed\<rparr>"
  let ?now1 = "''2024-05-01T10:00:00.000Z''"
  let ?now2 = "''2024-05-01T10:00:00.001Z''"
  let ?f = "initialFacade\<lparr>isLoading := False, currentProject := Some ?p,
                           selectedBorehole := Some ?a, error_state := None\<rparr>"
  let ?a' = "?a\<lparr>b_status := Completed, b_updatedAt := ?now1\<rparr>"
  have get: "getProjects ?m = ([?p], ?m)"
    by (simp add: getProjects_Encoded exampleMedium_def JSON_stringify_def)
  have start: "selectBorehole (Some ?a) (loadProject ''p1'' (initialFacade, ?m)) = (?f, ?m)"
    by (simp add: selectBorehole_def loadProject_def getProject_def get example_fields)
  have cur: "currentProject ?f = Some ?p" and sel: "selectedBorehole ?f = Some ?a"
    and ids: "b_id ?a = ''a''" "p_id ?p = ''p1''"
    by (simp_all add: example_fields)
  have "\<exists>m1. updateBorehole ''p1'' ''a'' ?u ?now1 ?now2 ?m = (Returns (Some ?a'), m1)"
    by (simp add: updateBorehole_def spreadBorehole_def store_eval)
  then obtain m1 where upd: "updateBorehole (p_id ?p) ''a'' ?u ?now1 ?now2 ?m
      = (Returns (Some ?a'), m1)"
    unfolding ids by blast
  have "\<exists>m2. deleteBorehole ''p1'' ''a'' ?now1 ?m = (Returns True, m2)"
    by (simp add: deleteBorehole_def store_eval)
  then obtain m2 where del: "deleteBorehole (p_id ?p) ''a'' ?now1 ?m = (Returns True, m2)"
    unfolding ids by blast
  note claim = facade_selection_after_mutation
    [of ?f "''a''" ?u ?now1 ?now2 ?m ?now1]
  from claim cur sel ids(1) upd
  have "selectedBorehole (fst (facade_updateBorehole ''a'' ?u ?now1 ?now2 (?f, ?m))) = Some ?a'"
    by blast
  moreover from claim cur del
  have "selectedBorehole (fst (facade_deleteBorehole ''a'' ?now1 (?f, ?m))) = None"
    by blast
  moreover have changed: "item (snd (facade_deleteBorehole ''a'' ?now1 (?f, ?m))) \<noteq> item ?m"
    by (simp add: facade_deleteBorehole_def loadProject_def deleteBorehole_def initialFacade_def
        store_eval)
  moreover from claim changed
  have "selectedBorehole (fst (facade_deleteBorehole ''a'' ?now1 (?f, ?m))) = None"
    by blast
  moreover from facade_selection_after_mutation
      [of initialFacade "''a''" ?u ?now1 ?now2 ?m ?now1]
  have "facade_deleteBorehole ''a'' ?now1 (initialFacade, ?m) = (initialFacade, ?m)"
    by (simp add: initialFacade_def)
  moreover
  let ?full = "?m\<lparr>full := True\<rparr>"
  have get': "getProjects ?full = ([?p], ?full)"
    by (simp add: getProjects_Encoded exampleMedium_def JSON_stringify_def)
  have start': "selectBorehole (Some ?a) (loadProject ''p1'' (initialFacade, ?full)) = (?f, ?full)"
    by (simp add: selectBorehole_def loadProject_def getProject_def get' example_fields)
  have "\<exists>e m3. deleteBorehole ''p1'' ''a'' ?now1 ?full = (Throws e, m3)"
    by (simp add: deleteBorehole_def store_eval)
  then obtain e m3 where "deleteBorehole (p_id ?p) ''a'' ?now1 ?full = (Throws e, m3)"
    unfolding ids by blast
  with facade_selection_after_mutation [of ?f "''a''" ?u ?now1 ?now2 ?full ?now1] cur sel
  have "selectedBorehole (fst (facade_deleteBorehole ''a'' ?now1 (?f, ?full))) = Some ?a"
    by (metis (no_types, lifting))
  ultimately show ?thesis
    unfolding start start' by blast
qed

end
